theory Spec2Isabelle
  imports Complex_Main
begin

section \<open>The persistence schema (core/models.py)\<close>

text \<open>
  The three model classes of \<^verbatim>\<open>core/models.py\<close> are records, and a table is the list of
  its rows in insertion order. A primary key is a natural number; a foreign key holds the
  primary key of the row it points to. A timestamp is a natural number (an instant on the
  clock of the database server); every operation that writes a timestamp takes the current
  instant \<open>now\<close> as an argument, and nothing is assumed about two instants.

  Of \<^verbatim>\<open>AbstractUser\<close> only the columns the endpoints read or write are kept. Column widths
  (\<^verbatim>\<open>max_length\<close>, \<^verbatim>\<open>max_digits\<close>, \<^verbatim>\<open>decimal_places\<close>) are not modelled: a column stores
  the value it is given.
\<close>

datatype Role = ADMIN | CUSTOMER

record User =
  user_id :: nat
  name :: string
  email :: string
  password :: string
  role :: Role

text \<open>A \<^verbatim>\<open>Decimal\<close> is the rational number it denotes; \<^verbatim>\<open>==\<close> on decimals is numeric.\<close>

type_synonym decimal = rat

record AuditedModel =
  pk :: nat
  date_created :: nat
  date_changed :: nat
  active :: bool

record Product = AuditedModel +
  api_id :: int
  title :: string
  price :: decimal
  description :: string
  category :: string
  image_url :: string
  rating_rate :: "decimal option"
  rating_count :: "int option"

record FavoriteProducts = AuditedModel +
  user :: nat
  product :: nat

text \<open>
  Modelled from the spec: the \<^verbatim>\<open>AuthToken\<close> model of \<^verbatim>\<open>api/models.py\<close>, which is not among
  the sources. The spec gives it an opaque key and a reference to its user, and has it
  deleted when the user is deleted.
\<close>

record AuthToken =
  key :: string
  token_user :: nat

record store =
  users :: "User list"
  tokens :: "AuthToken list"
  products :: "Product list"
  favorites :: "FavoriteProducts list"

text \<open>A new row gets a key larger than every key of its table.\<close>

definition fresh_pk :: "nat list \<Rightarrow> nat" where
  "fresh_pk ks = Suc (fold max ks 0)"

text \<open>
  \<^verbatim>\<open>QuerySet.first()\<close>: the first row of the result, or \<^verbatim>\<open>None\<close>. The tables are kept in
  insertion order, which is the order of the primary key.
\<close>

definition first_row :: "'a list \<Rightarrow> 'a option" where
  "first_row rows = (case rows of [] \<Rightarrow> None | r # _ \<Rightarrow> Some r)"

section \<open>Python values and exceptions\<close>

text \<open>
  What \<^verbatim>\<open>response.json()\<close> returns. A number with a fraction or an exponent is a
  \<^verbatim>\<open>float\<close>; \<open>JFloat r\<close> stands for the float that \<^verbatim>\<open>str\<close> prints as the decimal \<open>r\<close>
  (infinities and NaN are left out). A \<^verbatim>\<open>dict\<close> is the list of its items, and the
  first item with a key is the binding of that key.
\<close>

datatype json =
    JNull
  | JBool bool
  | JInt int
  | JFloat rat
  | JStr string
  | JArr "json list"
  | JObj "(string \<times> json) list"

datatype exn =
    RequestException
  | KeyError
  | ValueError
  | TypeError
  | AttributeError
  | InvalidOperation
  | IntegrityError

text \<open>A computation that may raise: \<open>Inl\<close> is the exception.\<close>

definition and_then :: "exn + 'a \<Rightarrow> ('a \<Rightarrow> exn + 'b) \<Rightarrow> exn + 'b" where
  "and_then m f = (case m of Inl e \<Rightarrow> Inl e | Inr x \<Rightarrow> f x)"

text \<open>\<^verbatim>\<open>data[k]\<close> for a string \<open>k\<close>.\<close>

definition subscript :: "json \<Rightarrow> string \<Rightarrow> exn + json" where
  "subscript data k =
     (case data of
        JObj items \<Rightarrow> (case map_of items k of None \<Rightarrow> Inl KeyError | Some v \<Rightarrow> Inr v)
      | _ \<Rightarrow> Inl TypeError)"

text \<open>\<^verbatim>\<open>data.get(k)\<close>: only a \<^verbatim>\<open>dict\<close> has the method.\<close>

definition dict_get :: "json \<Rightarrow> string \<Rightarrow> exn + json" where
  "dict_get data k =
     (case data of
        JObj items \<Rightarrow> (case map_of items k of None \<Rightarrow> Inr JNull | Some v \<Rightarrow> Inr v)
      | _ \<Rightarrow> Inl AttributeError)"

text \<open>The truth value of a Python object, as \<^verbatim>\<open>if\<close> and \<^verbatim>\<open>and\<close> test it.\<close>

definition truthy :: "json \<Rightarrow> bool" where
  "truthy v =
     (case v of
        JNull \<Rightarrow> False
      | JBool b \<Rightarrow> b
      | JInt i \<Rightarrow> i \<noteq> 0
      | JFloat r \<Rightarrow> r \<noteq> 0
      | JStr s \<Rightarrow> s \<noteq> []
      | JArr xs \<Rightarrow> xs \<noteq> []
      | JObj items \<Rightarrow> items \<noteq> [])"

text \<open>
  The conversions of the interpreter and the framework that read the text of a string, or
  print a value that is not a string, are parameters: \<^verbatim>\<open>Decimal(s)\<close> and \<^verbatim>\<open>int(s)\<close> for a string
  \<open>s\<close> (\<open>None\<close> when they raise; the special values of \<^verbatim>\<open>Decimal\<close> are left out), and
  \<^verbatim>\<open>str(v)\<close> for a value \<open>v\<close> that is not a string.
\<close>

record python =
  py_Decimal :: "string \<Rightarrow> decimal option"
  py_int :: "string \<Rightarrow> int option"
  py_str :: "json \<Rightarrow> string"

text \<open>
  \<^verbatim>\<open>Decimal(str(v))\<close>. The text of \<^verbatim>\<open>None\<close>, of a \<^verbatim>\<open>bool\<close>, of a \<^verbatim>\<open>list\<close> and of a \<^verbatim>\<open>dict\<close> is
  no numeral, and \<^verbatim>\<open>Decimal\<close> raises \<^verbatim>\<open>decimal.InvalidOperation\<close>, an \<^verbatim>\<open>ArithmeticError\<close>.
\<close>

definition Decimal_str :: "python \<Rightarrow> json \<Rightarrow> exn + decimal" where
  "Decimal_str py v =
     (case v of
        JInt i \<Rightarrow> Inr (of_int i)
      | JFloat r \<Rightarrow> Inr r
      | JStr s \<Rightarrow> (case py_Decimal py s of None \<Rightarrow> Inl InvalidOperation | Some d \<Rightarrow> Inr d)
      | _ \<Rightarrow> Inl InvalidOperation)"

text \<open>
  What the object-relational mapper makes of an attribute when it writes or looks up an
  \<^verbatim>\<open>IntegerField\<close>: \<^verbatim>\<open>None\<close> stays, anything else goes through \<^verbatim>\<open>int\<close>, which truncates a
  float towards zero (read off the decimal that stands for the float; the two have the
  same integer part up to \<open>2\<^sup>5\<^sup>3\<close>) and raises \<^verbatim>\<open>ValueError\<close> for a string that is no
  numeral and \<^verbatim>\<open>TypeError\<close> for a list or a dict. The range of the column is not modelled.
\<close>

definition int_field :: "python \<Rightarrow> json \<Rightarrow> exn + int option" where
  "int_field py v =
     (case v of
        JNull \<Rightarrow> Inr None
      | JBool b \<Rightarrow> Inr (Some (if b then 1 else 0))
      | JInt i \<Rightarrow> Inr (Some i)
      | JFloat r \<Rightarrow> Inr (Some (if 0 \<le> r then \<lfloor>r\<rfloor> else \<lceil>r\<rceil>))
      | JStr s \<Rightarrow> (case py_int py s of None \<Rightarrow> Inl ValueError | Some i \<Rightarrow> Inr (Some i))
      | _ \<Rightarrow> Inl TypeError)"

text \<open>A \<^verbatim>\<open>CharField\<close>, \<^verbatim>\<open>TextField\<close> or \<^verbatim>\<open>URLField\<close>: \<^verbatim>\<open>None\<close> and strings stay, the rest is printed.\<close>

definition char_field :: "python \<Rightarrow> json \<Rightarrow> string option" where
  "char_field py v =
     (case v of JNull \<Rightarrow> None | JStr s \<Rightarrow> Some s | _ \<Rightarrow> Some (py_str py v))"

section \<open>Responses\<close>

text \<open>
  An endpoint returns a status code and the object it hands to the response schema. The
  rendering of that object by the schema is not modelled.
\<close>

datatype body =
    NoBody
  | Message string
  | ErrorDict string
  | ProductBody Product
  | UserBody User
  | Page "Product list" nat

type_synonym response = "nat \<times> body"

section \<open>Favorites: remove and list (api/common/endpoints.py)\<close>

text \<open>
  \<^verbatim>\<open>FavoriteProducts.objects.filter(user=request.auth, product__api_id=p_id)\<close>: the links of
  the user whose product row has the catalog id. The join goes through the product table.
\<close>

definition product_api_id_is :: "store \<Rightarrow> nat \<Rightarrow> int \<Rightarrow> bool" where
  "product_api_id_is s product_pk p_id =
     list_ex (\<lambda>p. pk p = product_pk \<and> api_id p = p_id) (products s)"

definition favorites_of :: "store \<Rightarrow> User \<Rightarrow> int \<Rightarrow> FavoriteProducts list" where
  "favorites_of s auth p_id =
     filter (\<lambda>f. user f = user_id auth \<and> product_api_id_is s (product f) p_id) (favorites s)"

definition delete_favorite :: "User \<Rightarrow> int \<Rightarrow> store \<Rightarrow> response \<times> store" where
  "delete_favorite auth p_id s =
     (case first_row (favorites_of s auth p_id) of
        None \<Rightarrow> ((400, Message ''This product is not on your favorites.''), s)
      | Some product_in_favorite \<Rightarrow>
          ((204, NoBody),
           s\<lparr>favorites := filter (\<lambda>f. pk f \<noteq> pk product_in_favorite) (favorites s)\<rparr>))"

text \<open>
  \<^verbatim>\<open>Product.objects.filter(favoriteproducts__user=request.auth).order_by("date_created")\<close>:
  the join yields a product once for each link of the user to it, and the order is by the
  \<^verbatim>\<open>date_created\<close> column of the product table. Rows with equal timestamps stay in table
  order.
\<close>

definition get_favorites :: "User \<Rightarrow> store \<Rightarrow> Product list" where
  "get_favorites auth s =
     sort_key date_created
       (concat (map (\<lambda>p. map (\<lambda>f. p)
                  (filter (\<lambda>f. product f = pk p \<and> user f = user_id auth) (favorites s)))
                (products s)))"

text \<open>
  The \<^verbatim>\<open>date_created\<close> column of the link table, for the links of a user to a product row:
  the instants at which the user favorited the product.
\<close>

definition favorite_created :: "store \<Rightarrow> User \<Rightarrow> Product \<Rightarrow> nat list" where
  "favorite_created s auth p =
     map date_created
       (filter (\<lambda>f. product f = pk p \<and> user f = user_id auth) (favorites s))"



section \<open>Creating a product from catalog data (api/utils.py)\<close>

text \<open>
  A \<^verbatim>\<open>Product\<close> object before \<^verbatim>\<open>save()\<close>: the attributes hold what the constructor or an
  assignment was given.
\<close>

record ProductObject =
  obj_api_id :: json
  obj_title :: json
  obj_price :: decimal
  obj_description :: json
  obj_category :: json
  obj_image :: json
  obj_rating_rate :: "decimal option"
  obj_rating_count :: "json option"

text \<open>
  \<^verbatim>\<open>product.save()\<close> of a new object: the integer columns are converted first, then the row
  is inserted; a \<^verbatim>\<open>NULL\<close> in a column that is not nullable and a second row with the
  \<^verbatim>\<open>api_id\<close> (\<^verbatim>\<open>unique=True\<close>) raise \<^verbatim>\<open>IntegrityError\<close>.
\<close>

definition product_insert ::
  "python \<Rightarrow> nat \<Rightarrow> ProductObject \<Rightarrow> store \<Rightarrow> exn + (Product \<times> store)" where
  "product_insert py now obj s =
     and_then (int_field py (obj_api_id obj)) (\<lambda>a.
     and_then (case obj_rating_count obj of None \<Rightarrow> Inr None | Some v \<Rightarrow> int_field py v) (\<lambda>c.
       case (a, char_field py (obj_title obj), char_field py (obj_description obj),
             char_field py (obj_category obj), char_field py (obj_image obj)) of
         (Some a', Some t, Some d, Some cat, Some img) \<Rightarrow>
           if list_ex (\<lambda>p. api_id p = a') (products s) then Inl IntegrityError
           else
             let row = \<lparr>pk = fresh_pk (map pk (products s)), date_created = now,
                        date_changed = now, active = True, api_id = a', title = t,
                        price = obj_price obj, description = d, category = cat,
                        image_url = img, rating_rate = obj_rating_rate obj,
                        rating_count = c\<rparr>
             in Inr (row, s\<lparr>products := products s @ [row]\<rparr>)
       | _ \<Rightarrow> Inl IntegrityError))"

text \<open>\<^verbatim>\<open>data.get("rating") and data["rating"].get(k)\<close>, tested by the conditional expression.\<close>

definition rating_has :: "json \<Rightarrow> string \<Rightarrow> exn + bool" where
  "rating_has data k =
     and_then (dict_get data ''rating'') (\<lambda>r.
       if truthy r
       then and_then (subscript data ''rating'') (\<lambda>r'.
            and_then (dict_get r' k) (\<lambda>x. Inr (truthy x)))
       else Inr False)"

text \<open>
  The argument \<^verbatim>\<open>rating_rate=\<close> of the constructor:
  \<^verbatim>\<open>Decimal(str(data["rating"]["rate"])) if data.get("rating") and data["rating"].get("rate") else None\<close>.
\<close>

definition rating_rate_arg :: "python \<Rightarrow> json \<Rightarrow> exn + decimal option" where
  "rating_rate_arg py data =
     and_then (rating_has data ''rate'') (\<lambda>b.
       if b
       then and_then (subscript data ''rating'') (\<lambda>r.
            and_then (subscript r ''rate'') (\<lambda>x.
            and_then (Decimal_str py x) (\<lambda>d. Inr (Some d))))
       else Inr None)"

text \<open>
  The argument \<^verbatim>\<open>rating_count=\<close>:
  \<^verbatim>\<open>data["rating"]["count"] if data.get("rating") and data["rating"].get("count") else None\<close>.
\<close>

definition rating_count_arg :: "json \<Rightarrow> exn + json option" where
  "rating_count_arg data =
     and_then (rating_has data ''count'') (\<lambda>b.
       if b
       then and_then (subscript data ''rating'') (\<lambda>r.
            and_then (subscript r ''count'') (\<lambda>x. Inr (Some x)))
       else Inr None)"

text \<open>The arguments of the constructor are evaluated in the order they are written.\<close>

definition create_product_from_api_data ::
  "python \<Rightarrow> nat \<Rightarrow> json \<Rightarrow> store \<Rightarrow> exn + (Product \<times> store)" where
  "create_product_from_api_data py now data s =
     and_then (subscript data ''id'') (\<lambda>v_id.
     and_then (subscript data ''title'') (\<lambda>v_title.
     and_then (and_then (subscript data ''price'') (Decimal_str py)) (\<lambda>v_price.
     and_then (subscript data ''description'') (\<lambda>v_description.
     and_then (subscript data ''category'') (\<lambda>v_category.
     and_then (subscript data ''image'') (\<lambda>v_image.
     and_then (rating_rate_arg py data) (\<lambda>v_rate.
     and_then (rating_count_arg data) (\<lambda>v_count.
       product_insert py now
         \<lparr>obj_api_id = v_id, obj_title = v_title, obj_price = v_price,
          obj_description = v_description, obj_category = v_category,
          obj_image = v_image, obj_rating_rate = v_rate, obj_rating_count = v_count\<rparr>
         s))))))))"

section \<open>Favorites: add (api/common/endpoints.py)\<close>

text \<open>
  \<^verbatim>\<open>FavoriteProducts.objects.create(user=request.auth, product=product)\<close>: a second row with
  the pair (\<^verbatim>\<open>unique_together\<close>) raises \<^verbatim>\<open>IntegrityError\<close>. \<^verbatim>\<open>request.auth\<close> is a row of the
  user table, and \<open>product\<close> one of the product table.
\<close>

definition favorite_row :: "nat \<Rightarrow> nat \<Rightarrow> nat \<Rightarrow> nat \<Rightarrow> FavoriteProducts" where
  "favorite_row k now u p =
     \<lparr>pk = k, date_created = now, date_changed = now, active = True, user = u, product = p\<rparr>"

definition has_favorite :: "store \<Rightarrow> User \<Rightarrow> Product \<Rightarrow> bool" where
  "has_favorite s auth p \<longleftrightarrow>
     list_ex (\<lambda>f. user f = user_id auth \<and> product f = pk p) (favorites s)"

definition favorite_create :: "nat \<Rightarrow> User \<Rightarrow> Product \<Rightarrow> store \<Rightarrow> exn + store" where
  "favorite_create now auth p s =
     (if has_favorite s auth p then Inl IntegrityError
      else Inr (s\<lparr>favorites := favorites s @
                  [favorite_row (fresh_pk (map pk (favorites s))) now (user_id auth) (pk p)]\<rparr>))"

text \<open>
  The external product client: \<^verbatim>\<open>get_product(p_id)\<close> is \<^verbatim>\<open>requests.get(...).json()\<close>, which
  returns the decoded body or raises.
\<close>

type_synonym ProductAPIClient = "int \<Rightarrow> exn + json"

text \<open>The handler of \<^verbatim>\<open>except (requests.RequestException, KeyError, ValueError)\<close>.\<close>

definition fetch_handled :: "exn \<Rightarrow> bool" where
  "fetch_handled e \<longleftrightarrow> e = RequestException \<or> e = KeyError \<or> e = ValueError"

text \<open>
  The second \<^verbatim>\<open>try\<close> of \<^verbatim>\<open>add_favorite\<close> and its \<^verbatim>\<open>return 201, product\<close>: the link is created,
  or \<^verbatim>\<open>IntegrityError\<close> is answered with the 400.
\<close>

definition link_favorite :: "nat \<Rightarrow> User \<Rightarrow> Product \<Rightarrow> store \<Rightarrow> exn + (response \<times> store)" where
  "link_favorite now auth p s =
     (case favorite_create now auth p s of
        Inl e \<Rightarrow>
          if e = IntegrityError
          then Inr ((400, ErrorDict ''The product selected is already on user's favorites.''), s)
          else Inl e
      | Inr s' \<Rightarrow> Inr ((201, ProductBody p), s'))"

text \<open>\<^verbatim>\<open>Product.objects.filter(api_id=p_id).first()\<close>.\<close>

definition local_product :: "store \<Rightarrow> int \<Rightarrow> Product option" where
  "local_product s p_id = first_row (filter (\<lambda>p. api_id p = p_id) (products s))"

definition add_favorite ::
  "python \<Rightarrow> ProductAPIClient \<Rightarrow> nat \<Rightarrow> User \<Rightarrow> int \<Rightarrow> store \<Rightarrow> exn + (response \<times> store)" where
  "add_favorite py client now auth p_id s =
     (case local_product s p_id of
        Some p \<Rightarrow> link_favorite now auth p s
      | None \<Rightarrow>
          (case and_then (client p_id)
                  (\<lambda>product_data. create_product_from_api_data py now product_data s) of
             Inl e \<Rightarrow>
               if fetch_handled e
               then Inr ((400, ErrorDict
                            ''Product not found or could not be fetched from the API.''), s)
               else Inl e
           | Inr (p, s') \<Rightarrow> link_favorite now auth p s'))"

section \<open>User administration: delete (api/management/endpoints.py)\<close>

definition UserNotFound :: string where
  "UserNotFound = ''No user was found with the provided ID.''"

definition EmailInUse :: string where
  "EmailInUse = ''The provided email is already in use.''"

text \<open>\<^verbatim>\<open>User.objects.get(pk=user_id)\<close>; \<open>None\<close> stands for \<^verbatim>\<open>User.DoesNotExist\<close>.\<close>

definition get_user_by_pk :: "store \<Rightarrow> nat \<Rightarrow> User option" where
  "get_user_by_pk s uid = find (\<lambda>u. user_id u = uid) (users s)"

text \<open>
  \<^verbatim>\<open>user.delete()\<close> removes the row and, by \<^verbatim>\<open>on_delete=models.CASCADE\<close>, the rows of
  \<^verbatim>\<open>FavoriteProducts\<close> whose \<^verbatim>\<open>user\<close> is the row; the tokens go the same way (see
  \<^typ>\<open>AuthToken\<close>). No foreign key points from a product to a user.
\<close>

definition user_delete :: "User \<Rightarrow> store \<Rightarrow> store" where
  "user_delete u s =
     s\<lparr>users := filter (\<lambda>v. user_id v \<noteq> user_id u) (users s),
       tokens := filter (\<lambda>t. token_user t \<noteq> user_id u) (tokens s),
       favorites := filter (\<lambda>f. user f \<noteq> user_id u) (favorites s)\<rparr>"

definition delete_user :: "nat \<Rightarrow> store \<Rightarrow> response \<times> store" where
  "delete_user uid s =
     (case get_user_by_pk s uid of
        None \<Rightarrow> ((400, Message UserNotFound), s)
      | Some u \<Rightarrow> ((204, NoBody), user_delete u s))"

section \<open>User administration: update (api/management/endpoints.py)\<close>

text \<open>
  \<^verbatim>\<open>UserSchemaUpdate\<close> has the three fields optional (\<^verbatim>\<open>fields_optional = '__all__'\<close>). A field
  of the payload is unset (\<open>None\<close>), set to \<^verbatim>\<open>null\<close> (\<open>Some None\<close>) or set to a string.
\<close>

record UserSchemaUpdate =
  name_in :: "string option option"
  email_in :: "string option option"
  password_in :: "string option option"

text \<open>\<^verbatim>\<open>payload.dict(exclude_unset=True)\<close>: the fields that were set, in field order.\<close>

definition payload_dict :: "UserSchemaUpdate \<Rightarrow> (string \<times> string option) list" where
  "payload_dict payload =
     (case name_in payload of None \<Rightarrow> [] | Some v \<Rightarrow> [(''name'', v)]) @
     (case email_in payload of None \<Rightarrow> [] | Some v \<Rightarrow> [(''email'', v)]) @
     (case password_in payload of None \<Rightarrow> [] | Some v \<Rightarrow> [(''password'', v)])"

text \<open>\<^verbatim>\<open>payload.email\<close>: the value of the field, \<^verbatim>\<open>None\<close> when it was not set.\<close>

definition payload_email :: "UserSchemaUpdate \<Rightarrow> string option" where
  "payload_email payload = (case email_in payload of None \<Rightarrow> None | Some v \<Rightarrow> v)"

text \<open>
  The user object in memory between \<^verbatim>\<open>User.objects.get\<close> and \<^verbatim>\<open>user.save()\<close>: \<^verbatim>\<open>setattr\<close> can
  put \<^verbatim>\<open>None\<close> into an attribute, which the row cannot hold.
\<close>

record UserObject =
  obj_row :: User
  obj_name :: "string option"
  obj_email :: "string option"
  obj_password :: "string option"

definition load_user :: "User \<Rightarrow> UserObject" where
  "load_user u =
     \<lparr>obj_row = u, obj_name = Some (name u), obj_email = Some (email u),
      obj_password = Some (password u)\<rparr>"

text \<open>\<^verbatim>\<open>setattr(user, attr, value)\<close> for the three names a key of the payload can be.\<close>

definition setattr :: "UserObject \<Rightarrow> string \<times> string option \<Rightarrow> UserObject" where
  "setattr obj kv =
     (if fst kv = ''name'' then obj\<lparr>obj_name := snd kv\<rparr>
      else if fst kv = ''email'' then obj\<lparr>obj_email := snd kv\<rparr>
      else if fst kv = ''password'' then obj\<lparr>obj_password := snd kv\<rparr>
      else obj)"

text \<open>
  \<^verbatim>\<open>user.set_password(raw)\<close> stores \<^verbatim>\<open>make_password(raw)\<close>. The hashing routine is the
  framework's and is a parameter here.
\<close>

definition set_password :: "(string \<Rightarrow> string) \<Rightarrow> string \<Rightarrow> UserObject \<Rightarrow> UserObject" where
  "set_password make_password raw obj = obj\<lparr>obj_password := Some (make_password raw)\<rparr>"

text \<open>
  \<^verbatim>\<open>user.save()\<close> of a loaded user: the row with the key is rewritten; \<^verbatim>\<open>name\<close>, \<^verbatim>\<open>email\<close>
  and \<^verbatim>\<open>password\<close> are not nullable and \<^verbatim>\<open>email\<close> is unique, and the database answers a
  violation with \<^verbatim>\<open>IntegrityError\<close>.
\<close>

definition user_save :: "UserObject \<Rightarrow> store \<Rightarrow> exn + (User \<times> store)" where
  "user_save obj s =
     (case (obj_name obj, obj_email obj, obj_password obj) of
        (Some n, Some e, Some pw) \<Rightarrow>
          if list_ex (\<lambda>v. user_id v \<noteq> user_id (obj_row obj) \<and> email v = e) (users s)
          then Inl IntegrityError
          else
            let u = (obj_row obj)\<lparr>name := n, email := e, password := pw\<rparr>
            in Inr (u, s\<lparr>users := map (\<lambda>v. if user_id v = user_id u then u else v) (users s)\<rparr>)
      | _ \<Rightarrow> Inl IntegrityError)"

text \<open>
  \<^verbatim>\<open>User.objects.filter(email=payload.email).first()\<close>. A lookup for \<^verbatim>\<open>None\<close> is a lookup
  for \<^verbatim>\<open>NULL\<close>, which no row has.
\<close>

definition email_check :: "UserSchemaUpdate \<Rightarrow> store \<Rightarrow> User option" where
  "email_check payload s =
     (case payload_email payload of
        None \<Rightarrow> None
      | Some e \<Rightarrow> first_row (filter (\<lambda>v. email v = e) (users s)))"

text \<open>The endpoint. It catches no exception of \<^verbatim>\<open>user.save()\<close>.\<close>

definition update_user ::
  "(string \<Rightarrow> string) \<Rightarrow> nat \<Rightarrow> UserSchemaUpdate \<Rightarrow> store \<Rightarrow> exn + (response \<times> store)" where
  "update_user make_password uid payload s =
     (let updated_fields = payload_dict payload;
          password_popped = (case map_of updated_fields ''password'' of None \<Rightarrow> None | Some v \<Rightarrow> v);
          updated_fields = filter (\<lambda>kv. fst kv \<noteq> ''password'') updated_fields
      in case get_user_by_pk s uid of
           None \<Rightarrow> Inr ((400, Message UserNotFound), s)
         | Some u \<Rightarrow>
             (case email_check payload s of
                Some _ \<Rightarrow> Inr ((400, Message EmailInUse), s)
              | None \<Rightarrow>
                  let obj = fold (\<lambda>kv obj. setattr obj kv) updated_fields (load_user u);
                      obj = (case password_popped of
                               None \<Rightarrow> obj
                             | Some raw \<Rightarrow>
                                 if raw \<noteq> [] then set_password make_password raw obj else obj)
                  in (case user_save obj s of
                        Inl e \<Rightarrow> Inl e
                      | Inr (u', s') \<Rightarrow> Inr ((200, UserBody u'), s'))))"

section \<open>The sync job (core/management/commands/sync_products.py)\<close>

text \<open>
  A loaded \<^verbatim>\<open>Product\<close> object: the attributes hold the values of the row, until the job
  assigns what it read from the catalog.
\<close>

definition load_product :: "Product \<Rightarrow> ProductObject" where
  "load_product row =
     \<lparr>obj_api_id = JInt (api_id row), obj_title = JStr (title row), obj_price = price row,
      obj_description = JStr (description row), obj_category = JStr (category row),
      obj_image = JStr (image_url row), obj_rating_rate = rating_rate row,
      obj_rating_count = map_option JInt (rating_count row)\<rparr>"

text \<open>
  \<^verbatim>\<open>product.save()\<close> of a loaded object rewrites the row with the key and stamps
  \<^verbatim>\<open>date_changed\<close> (\<^verbatim>\<open>auto_now\<close>). The job never assigns \<^verbatim>\<open>api_id\<close>.
\<close>

definition product_update ::
  "python \<Rightarrow> nat \<Rightarrow> Product \<Rightarrow> ProductObject \<Rightarrow> store \<Rightarrow> exn + store" where
  "product_update py now row obj s =
     and_then (case obj_rating_count obj of None \<Rightarrow> Inr None | Some v \<Rightarrow> int_field py v) (\<lambda>c.
       case (char_field py (obj_title obj), char_field py (obj_description obj),
             char_field py (obj_category obj), char_field py (obj_image obj)) of
         (Some t, Some d, Some cat, Some img) \<Rightarrow>
           let row' = row\<lparr>date_changed := now, title := t, price := obj_price obj,
                          description := d, category := cat, image_url := img,
                          rating_rate := obj_rating_rate obj, rating_count := c\<rparr>
           in Inr (s\<lparr>products := map (\<lambda>p. if pk p = pk row then row' else p) (products s)\<rparr>)
       | _ \<Rightarrow> Inl IntegrityError)"

text \<open>\<^verbatim>\<open>product.title != product_data['title']\<close>: a string differs from every value that is no string.\<close>

definition str_ne :: "string \<Rightarrow> json \<Rightarrow> bool" where
  "str_ne s v = (case v of JStr t \<Rightarrow> s \<noteq> t | _ \<Rightarrow> True)"

text \<open>The five comparisons, joined by \<^verbatim>\<open>or\<close>: the first that holds ends the evaluation.\<close>

definition has_changes :: "python \<Rightarrow> Product \<Rightarrow> json \<Rightarrow> exn + bool" where
  "has_changes py row product_data =
     and_then (subscript product_data ''title'') (\<lambda>t.
       if str_ne (title row) t then Inr True
       else
     and_then (and_then (subscript product_data ''price'') (Decimal_str py)) (\<lambda>p.
       if price row \<noteq> p then Inr True
       else
     and_then (subscript product_data ''description'') (\<lambda>d.
       if str_ne (description row) d then Inr True
       else
     and_then (subscript product_data ''category'') (\<lambda>c.
       if str_ne (category row) c then Inr True
       else
     and_then (subscript product_data ''image'') (\<lambda>i.
       Inr (str_ne (image_url row) i))))))"

text \<open>The assignments of the branch \<^verbatim>\<open>if has_changes\<close>, up to \<^verbatim>\<open>product.save()\<close>.\<close>

definition assign_fields :: "python \<Rightarrow> Product \<Rightarrow> json \<Rightarrow> exn + ProductObject" where
  "assign_fields py row product_data =
     and_then (subscript product_data ''title'') (\<lambda>t.
     and_then (and_then (subscript product_data ''price'') (Decimal_str py)) (\<lambda>p.
     and_then (subscript product_data ''description'') (\<lambda>d.
     and_then (subscript product_data ''category'') (\<lambda>c.
     and_then (subscript product_data ''image'') (\<lambda>i.
     and_then (dict_get product_data ''rating'') (\<lambda>r.
       let obj = (load_product row)\<lparr>obj_title := t, obj_price := p, obj_description := d,
                                     obj_category := c, obj_image := i\<rparr>
       in if truthy r
          then and_then (subscript product_data ''rating'') (\<lambda>r1.
               and_then (subscript r1 ''rate'') (\<lambda>x.
               and_then (Decimal_str py x) (\<lambda>rate.
               and_then (subscript product_data ''rating'') (\<lambda>r2.
               and_then (subscript r2 ''count'') (\<lambda>cnt.
                 Inr (obj\<lparr>obj_rating_rate := Some rate, obj_rating_count := Some cnt\<rparr>))))))
          else Inr obj))))))"

datatype sync_step = Updated | Skipped

text \<open>
  The body of the loop. \<^verbatim>\<open>Product.objects.get(api_id=api_id)\<close> converts the value as the
  column does; \<open>None\<close> from \<open>find\<close> is \<^verbatim>\<open>Product.DoesNotExist\<close>, the one exception the
  loop catches.
\<close>

definition sync_item :: "python \<Rightarrow> nat \<Rightarrow> json \<Rightarrow> store \<Rightarrow> exn + (sync_step \<times> store)" where
  "sync_item py now product_data s =
     and_then (subscript product_data ''id'') (\<lambda>v.
     and_then (int_field py v) (\<lambda>k.
       case (case k of None \<Rightarrow> None | Some a \<Rightarrow> find (\<lambda>p. api_id p = a) (products s)) of
         None \<Rightarrow> Inr (Skipped, s)
       | Some row \<Rightarrow>
           and_then (has_changes py row product_data) (\<lambda>changed.
             if changed
             then and_then (assign_fields py row product_data) (\<lambda>obj.
                  and_then (product_update py now row obj s) (\<lambda>s'. Inr (Updated, s')))
             else Inr (Skipped, s))))"

text \<open>
  How the run ends: the fetch failed and the job returned, the loop completed with its two
  counts, or an exception the job does not catch ended it. Rows saved before an exception
  stay saved.
\<close>

datatype sync_outcome = FetchFailed | Completed nat nat | Raised exn

fun sync_loop :: "python \<Rightarrow> nat \<Rightarrow> json list \<Rightarrow> store \<Rightarrow> nat \<Rightarrow> nat \<Rightarrow> sync_outcome \<times> store" where
  "sync_loop py now [] s updated_count skipped_count =
     (Completed updated_count skipped_count, s)"
| "sync_loop py now (product_data # rest) s updated_count skipped_count =
     (case sync_item py now product_data s of
        Inl e \<Rightarrow> (Raised e, s)
      | Inr (Updated, s') \<Rightarrow> sync_loop py now rest s' (updated_count + 1) skipped_count
      | Inr (Skipped, s') \<Rightarrow> sync_loop py now rest s' updated_count (skipped_count + 1))"

text \<open>\<^verbatim>\<open>for product_data in api_products\<close>: what the iteration yields.\<close>

definition py_iter :: "json \<Rightarrow> exn + json list" where
  "py_iter v =
     (case v of
        JArr xs \<Rightarrow> Inr xs
      | JObj items \<Rightarrow> Inr (map JStr (rev (remdups (rev (map fst items)))))
      | JStr s \<Rightarrow> Inr (map (\<lambda>c. JStr [c]) s)
      | _ \<Rightarrow> Inl TypeError)"

text \<open>
  \<^verbatim>\<open>Command.handle\<close>. \<open>fetched\<close> is what \<^verbatim>\<open>requests.get(...).json()\<close> gave; the whole run is
  stamped with one instant.
\<close>

definition handle :: "python \<Rightarrow> exn + json \<Rightarrow> nat \<Rightarrow> store \<Rightarrow> sync_outcome \<times> store" where
  "handle py fetched now s =
     (case fetched of
        Inl e \<Rightarrow> if e = RequestException then (FetchFailed, s) else (Raised e, s)
      | Inr api_products \<Rightarrow>
          (case py_iter api_products of
             Inl e \<Rightarrow> (Raised e, s)
           | Inr items \<Rightarrow> sync_loop py now items s 0 0))"

section \<open>The constraints of the schema\<close>

text \<open>
  What the database keeps true of every store: primary keys are unique in each table;
  \<^verbatim>\<open>email\<close> and \<^verbatim>\<open>api_id\<close> are \<^verbatim>\<open>unique=True\<close>; \<^verbatim>\<open>unique_together = ("user", "product")\<close>;
  a foreign key points to a row.
\<close>

definition constraints :: "store \<Rightarrow> bool" where
  "constraints s \<longleftrightarrow>
     distinct (map user_id (users s)) \<and>
     distinct (map email (users s)) \<and>
     distinct (map pk (products s)) \<and>
     distinct (map api_id (products s)) \<and>
     distinct (map pk (favorites s)) \<and>
     distinct (map (\<lambda>f. (user f, product f)) (favorites s)) \<and>
     list_all (\<lambda>f. list_ex (\<lambda>p. pk p = product f) (products s)) (favorites s) \<and>
     list_all (\<lambda>f. list_ex (\<lambda>u. user_id u = user f) (users s)) (favorites s) \<and>
     list_all (\<lambda>t. list_ex (\<lambda>u. user_id u = token_user t) (users s)) (tokens s)"

section \<open>Example data\<close>

text \<open>Two customers, a catalog of two products, and the stores that requests produce from them.\<close>

definition ann :: User where
  "ann = \<lparr>user_id = 1, name = ''Ann'', email = ''ann@example.com'', password = ''hash:a'',
          role = CUSTOMER\<rparr>"

definition bob :: User where
  "bob = \<lparr>user_id = 2, name = ''Bob'', email = ''bob@example.com'', password = ''hash:b'',
          role = CUSTOMER\<rparr>"

definition store0 :: store where
  "store0 = \<lparr>users = [ann, bob],
             tokens = [\<lparr>key = ''k1'', token_user = 1\<rparr>, \<lparr>key = ''k2'', token_user = 2\<rparr>],
             products = [], favorites = []\<rparr>"

definition demo_hash :: "string \<Rightarrow> string" where
  "demo_hash raw = ''hash:'' @ raw"

text \<open>No example reads the text of a string or prints a value, so the three conversions are idle.\<close>

definition demo_python :: python where
  "demo_python = \<lparr>py_Decimal = (\<lambda>s. None), py_int = (\<lambda>s. None), py_str = (\<lambda>v. [])\<rparr>"

definition catalog_item :: "int \<Rightarrow> string \<Rightarrow> rat \<Rightarrow> json \<Rightarrow> json" where
  "catalog_item i t p r =
     JObj [(''id'', JInt i), (''title'', JStr t), (''price'', JFloat p),
           (''description'', JStr ''text''), (''category'', JStr ''misc''),
           (''image'', JStr ''https://example.com/i.png''), (''rating'', r)]"

definition rating_obj :: "json \<Rightarrow> json \<Rightarrow> json" where
  "rating_obj r c = JObj [(''rate'', r), (''count'', c)]"

definition backpack :: json where
  "backpack = catalog_item 1 ''Backpack'' (Fract 10995 100) (rating_obj (JFloat (Fract 39 10)) (JInt 120))"

definition shirt :: json where
  "shirt = catalog_item 2 ''Shirt'' (Fract 223 10) (rating_obj (JInt 0) (JInt 0))"

text \<open>The catalog service: products 1 and 2, a \<^verbatim>\<open>null\<close> body for 3, no answer otherwise.\<close>

definition catalog :: ProductAPIClient where
  "catalog p_id =
     (if p_id = 1 then Inr backpack
      else if p_id = 2 then Inr shirt
      else if p_id = 3 then Inr JNull
      else Inl RequestException)"

definition backpack_row :: Product where
  "backpack_row =
     \<lparr>pk = 1, date_created = 5, date_changed = 5, active = True, api_id = 1,
      title = ''Backpack'', price = Fract 10995 100, description = ''text'',
      category = ''misc'', image_url = ''https://example.com/i.png'',
      rating_rate = Some (Fract 39 10), rating_count = Some 120\<rparr>"

definition shirt_row :: Product where
  "shirt_row =
     \<lparr>pk = 2, date_created = 6, date_changed = 6, active = True, api_id = 2,
      title = ''Shirt'', price = Fract 223 10, description = ''text'',
      category = ''misc'', image_url = ''https://example.com/i.png'',
      rating_rate = None, rating_count = None\<rparr>"

text \<open>Ann favorites product 1 at instant 5.\<close>

definition store1 :: store where
  "store1 = store0\<lparr>products := [backpack_row], favorites := [favorite_row 1 5 1 1]\<rparr>"

text \<open>Then Bob favorites product 2 at instant 6, and product 1 at instant 7.\<close>

definition store2 :: store where
  "store2 = store0\<lparr>products := [backpack_row, shirt_row],
                   favorites := [favorite_row 1 5 1 1, favorite_row 2 6 2 2]\<rparr>"

definition store3 :: store where
  "store3 = store0\<lparr>products := [backpack_row, shirt_row],
                   favorites := [favorite_row 1 5 1 1, favorite_row 2 6 2 2, favorite_row 3 7 2 1]\<rparr>"






section \<open>Basic facts\<close>

lemma first_row_None [simp]: "first_row rows = None \<longleftrightarrow> rows = []"
  by (simp add: first_row_def split: list.splits)

lemma first_row_Nil [simp]: "first_row [] = None"
  by (simp add: first_row_def)

lemma first_row_Cons [simp]: "first_row (r # rows) = Some r"
  by (simp add: first_row_def)

lemma and_then_Inl [simp]: "and_then (Inl e) f = Inl e"
  by (simp add: and_then_def)

lemma and_then_Inr [simp]: "and_then (Inr x) f = f x"
  by (simp add: and_then_def)

lemma and_then_eq_Inr:
  "and_then m f = Inr y \<longleftrightarrow> (\<exists>x. m = Inr x \<and> f x = Inr y)"
  by (cases m) simp_all

lemma fold_max_ge: "(m::nat) \<le> fold max ks m"
  by (induction ks arbitrary: m) (auto intro: order_trans [OF max.cobounded2])

lemma fold_max_mem: "k \<in> set ks \<Longrightarrow> (k::nat) \<le> fold max ks m"
proof (induction ks arbitrary: m)
  case Nil
  then show ?case by simp
next
  case (Cons a ks)
  show ?case
  proof (cases "k = a")
    case True
    have "a \<le> max a m" by simp
    also have "\<dots> \<le> fold max ks (max a m)" by (rule fold_max_ge)
    finally show ?thesis using True by simp
  next
    case False
    with Cons show ?thesis by simp
  qed
qed

lemma fresh_pk_fresh: "fresh_pk ks \<notin> set ks"
proof
  assume "fresh_pk ks \<in> set ks"
  then have "fresh_pk ks \<le> fold max ks 0" by (rule fold_max_mem)
  then show False by (simp add: fresh_pk_def)
qed

lemma product_api_id_is_favorites_update [simp]:
  "product_api_id_is (s\<lparr>favorites := fs\<rparr>) = product_api_id_is s"
  by (simp add: product_api_id_is_def fun_eq_iff)

lemma product_api_id_is_unique:
  assumes "distinct (map api_id (products s))"
    and "product_api_id_is s a p_id" and "product_api_id_is s b p_id"
  shows "a = b"
proof -
  from assms(2) obtain p where p: "p \<in> set (products s)" "pk p = a" "api_id p = p_id"
    by (auto simp: product_api_id_is_def list_ex_iff)
  from assms(3) obtain q where q: "q \<in> set (products s)" "pk q = b" "api_id q = p_id"
    by (auto simp: product_api_id_is_def list_ex_iff)
  from assms(1) p q have "p = q"
    by (metis distinct_map inj_onD)
  with p q show ?thesis by simp
qed

section \<open>Removing a favorite\<close>

text \<open>
  Under the constraints of the schema a user has at most one link to a catalog id, so the
  row \<^verbatim>\<open>delete_favorite\<close> removes by key is the one that matches.
\<close>

lemma matching_links_same_pk:
  assumes c: "constraints s"
    and f: "f \<in> set (favorites_of s auth p_id)"
    and g: "g \<in> set (favorites s)"
  shows "pk g \<noteq> pk f \<longleftrightarrow> \<not> (user g = user_id auth \<and> product_api_id_is s (product g) p_id)"
proof
  assume ne: "pk g \<noteq> pk f"
  show "\<not> (user g = user_id auth \<and> product_api_id_is s (product g) p_id)"
  proof
    assume m: "user g = user_id auth \<and> product_api_id_is s (product g) p_id"
    from f have fm: "f \<in> set (favorites s)" "user f = user_id auth"
      "product_api_id_is s (product f) p_id"
      by (auto simp: favorites_of_def)
    from c have "distinct (map api_id (products s))" by (simp add: constraints_def)
    with m fm have "product g = product f" by (metis product_api_id_is_unique)
    with m fm have "(user g, product g) = (user f, product f)" by simp
    moreover from c have "inj_on (\<lambda>f. (user f, product f)) (set (favorites s))"
      by (simp add: constraints_def distinct_map)
    ultimately have "g = f" using g fm(1) by (auto dest: inj_onD)
    with ne show False by simp
  qed
next
  assume "\<not> (user g = user_id auth \<and> product_api_id_is s (product g) p_id)"
  moreover from f have "user f = user_id auth \<and> product_api_id_is s (product f) p_id"
    by (auto simp: favorites_of_def)
  ultimately have "g \<noteq> f" by auto
  moreover from f have "f \<in> set (favorites s)" by (auto simp: favorites_of_def)
  moreover from c have "inj_on pk (set (favorites s))"
    by (simp add: constraints_def distinct_map)
  ultimately show "pk g \<noteq> pk f" using g by (auto dest: inj_onD)
qed

text \<open>
  Claim C6. A favorite-remove request for catalog id \<open>p_id\<close>: when the current user has no
  link to a product with that catalog id (the product table is not asked whether such a
  product exists), the response is 400 with the message "This product is not on your
  favorites." and the store is unchanged; when there is a link, the response is 204 with
  an empty body and the link found is deleted by its key; under the constraints of the
  schema the user then has no link to the catalog id, every other link stays, and the
  other tables are unchanged.
\<close>

theorem delete_favorite_contract:
  "(favorites_of s auth p_id = [] \<longrightarrow>
      delete_favorite auth p_id s =
        ((400, Message ''This product is not on your favorites.''), s)) \<and>
   (\<forall>f rest. favorites_of s auth p_id = f # rest \<longrightarrow>
      delete_favorite auth p_id s =
        ((204, NoBody), s\<lparr>favorites := filter (\<lambda>g. pk g \<noteq> pk f) (favorites s)\<rparr>)) \<and>
   (favorites_of s auth p_id \<noteq> [] \<longrightarrow> constraints s \<longrightarrow>
      (\<exists>s'. delete_favorite auth p_id s = ((204, NoBody), s') \<and>
            favorites_of s' auth p_id = [] \<and>
            favorites s' =
              filter (\<lambda>f. \<not> (user f = user_id auth \<and> product_api_id_is s (product f) p_id))
                (favorites s) \<and>
            users s' = users s \<and> tokens s' = tokens s \<and> products s' = products s))"
proof (intro conjI impI allI)
  assume "favorites_of s auth p_id = []"
  then show "delete_favorite auth p_id s =
      ((400, Message ''This product is not on your favorites.''), s)"
    by (simp add: delete_favorite_def)
next
  fix f rest
  assume "favorites_of s auth p_id = f # rest"
  then show "delete_favorite auth p_id s =
      ((204, NoBody), s\<lparr>favorites := filter (\<lambda>g. pk g \<noteq> pk f) (favorites s)\<rparr>)"
    by (simp add: delete_favorite_def)
next
  assume ne: "favorites_of s auth p_id \<noteq> []" and c: "constraints s"
  then obtain f rest where fr: "favorites_of s auth p_id = f # rest"
    by (cases "favorites_of s auth p_id") auto
  define s' where "s' = s\<lparr>favorites := filter (\<lambda>g. pk g \<noteq> pk f) (favorites s)\<rparr>"
  have del: "delete_favorite auth p_id s = ((204, NoBody), s')"
    by (simp add: delete_favorite_def fr s'_def)
  have f_in: "f \<in> set (favorites_of s auth p_id)" by (simp add: fr)
  have flt: "filter (\<lambda>g. pk g \<noteq> pk f) (favorites s) =
      filter (\<lambda>f. \<not> (user f = user_id auth \<and> product_api_id_is s (product f) p_id)) (favorites s)"
    by (rule filter_cong [OF refl]) (rule matching_links_same_pk [OF c f_in])
  have gone: "favorites_of s' auth p_id = []"
    by (auto simp: favorites_of_def s'_def flt filter_empty_conv)
  show "\<exists>s'. delete_favorite auth p_id s = ((204, NoBody), s') \<and>
            favorites_of s' auth p_id = [] \<and>
            favorites s' =
              filter (\<lambda>f. \<not> (user f = user_id auth \<and> product_api_id_is s (product f) p_id))
                (favorites s) \<and>
            users s' = users s \<and> tokens s' = tokens s \<and> products s' = products s"
    using del gone flt by (intro exI [of _ s']) (simp add: s'_def)
qed

text \<open>
  The theorem at work: Bob removes product 1 from \<open>store3\<close>, which leaves \<open>store2\<close>; and
  Bob cannot remove product 9, which no table knows.
\<close>

theorem delete_favorite_contract_witness:
  "favorites_of store3 bob 1 \<noteq> [] \<and> constraints store3 \<and>
   delete_favorite bob 1 store3 = ((204, NoBody), store2) \<and>
   favorites_of store2 bob 1 = [] \<and>
   favorites_of store3 bob 9 = [] \<and>
   delete_favorite bob 9 store3 =
     ((400, Message ''This product is not on your favorites.''), store3)"
proof -
  have h1: "favorites_of store3 bob 1 \<noteq> []" by code_simp
  have h2: "constraints store3" by code_simp
  have h3: "favorites_of store3 bob 9 = []" by code_simp
  have r: "delete_favorite bob 1 store3 = ((204, NoBody), store2)" by code_simp
  from delete_favorite_contract [of store3 bob 1] h1 h2 r
  have "favorites_of store2 bob 1 = []" by auto
  moreover from delete_favorite_contract [of store3 bob 9] h3
  have "delete_favorite bob 9 store3 =
     ((400, Message ''This product is not on your favorites.''), store3)" by simp
  ultimately show ?thesis using h1 h2 h3 r by simp
qed

section \<open>Deleting a user\<close>

lemma get_user_by_pk_None: "get_user_by_pk s uid = None \<longleftrightarrow> uid \<notin> user_id ` set (users s)"
  by (auto simp: get_user_by_pk_def find_None_iff)

lemma get_user_by_pk_Some: "get_user_by_pk s uid = Some u \<Longrightarrow> u \<in> set (users s) \<and> user_id u = uid"
  by (auto simp: get_user_by_pk_def find_Some_iff)

text \<open>
  Claim C9. A delete-user request: for an id that no user row has, the response is 400 with
  the message "No user was found with the provided ID." and the store is unchanged; for the
  id of a user row, the response is 204 with an empty body, the user table loses the rows
  with that id, the token table the tokens of that user and the link table the favorite
  links of that user, so that nothing of the user is left, and the product table is
  unchanged, the products the user had favorited included.
\<close>

theorem delete_user_contract:
  "(uid \<notin> user_id ` set (users s) \<longrightarrow>
      delete_user uid s = ((400, Message UserNotFound), s)) \<and>
   (uid \<in> user_id ` set (users s) \<longrightarrow>
      (\<exists>s'. delete_user uid s = ((204, NoBody), s') \<and>
            users s' = filter (\<lambda>u. user_id u \<noteq> uid) (users s) \<and>
            tokens s' = filter (\<lambda>t. token_user t \<noteq> uid) (tokens s) \<and>
            favorites s' = filter (\<lambda>f. user f \<noteq> uid) (favorites s) \<and>
            products s' = products s \<and>
            uid \<notin> user_id ` set (users s') \<and>
            uid \<notin> token_user ` set (tokens s') \<and>
            uid \<notin> user ` set (favorites s')))"
proof (intro conjI impI)
  assume "uid \<notin> user_id ` set (users s)"
  then have "get_user_by_pk s uid = None" by (simp add: get_user_by_pk_None)
  then show "delete_user uid s = ((400, Message UserNotFound), s)"
    by (simp add: delete_user_def)
next
  assume "uid \<in> user_id ` set (users s)"
  then have "get_user_by_pk s uid \<noteq> None" by (simp add: get_user_by_pk_None)
  then obtain u where u: "get_user_by_pk s uid = Some u" by auto
  then have uid: "user_id u = uid" by (simp add: get_user_by_pk_Some)
  have "delete_user uid s = ((204, NoBody), user_delete u s)"
    by (simp add: delete_user_def u)
  then show "\<exists>s'. delete_user uid s = ((204, NoBody), s') \<and>
            users s' = filter (\<lambda>u. user_id u \<noteq> uid) (users s) \<and>
            tokens s' = filter (\<lambda>t. token_user t \<noteq> uid) (tokens s) \<and>
            favorites s' = filter (\<lambda>f. user f \<noteq> uid) (favorites s) \<and>
            products s' = products s \<and>
            uid \<notin> user_id ` set (users s') \<and>
            uid \<notin> token_user ` set (tokens s') \<and>
            uid \<notin> user ` set (favorites s')"
    by (intro exI [of _ "user_delete u s"]) (auto simp: user_delete_def uid)
qed

text \<open>
  The theorem at work: deleting Bob from \<open>store3\<close> removes his token and his two links and
  keeps both products; nobody has the id 7.
\<close>

theorem delete_user_contract_witness:
  "2 \<in> user_id ` set (users store3) \<and>
   delete_user 2 store3 =
     ((204, NoBody),
      \<lparr>users = [ann], tokens = [\<lparr>key = ''k1'', token_user = 1\<rparr>],
       products = [backpack_row, shirt_row], favorites = [favorite_row 1 5 1 1]\<rparr>) \<and>
   7 \<notin> user_id ` set (users store3) \<and>
   delete_user 7 store3 = ((400, Message UserNotFound), store3)"
proof -
  have h1: "2 \<in> user_id ` set (users store3)" by (simp add: store3_def store0_def bob_def)
  have h2: "7 \<notin> user_id ` set (users store3)"
    by (simp add: store3_def store0_def ann_def bob_def)
  have r: "delete_user 2 store3 =
     ((204, NoBody),
      \<lparr>users = [ann], tokens = [\<lparr>key = ''k1'', token_user = 1\<rparr>],
       products = [backpack_row, shirt_row], favorites = [favorite_row 1 5 1 1]\<rparr>)"
    by code_simp
  from delete_user_contract [of 7 store3] h2
  have "delete_user 7 store3 = ((400, Message UserNotFound), store3)" by simp
  moreover from delete_user_contract [of 2 store3] h1 r
  have "products (snd (delete_user 2 store3)) = products store3" by auto
  ultimately show ?thesis using h1 h2 r by simp
qed

section \<open>Listing favorites\<close>




lemma set_get_favorites:
  "set (get_favorites auth s) =
     {p \<in> set (products s).
        \<exists>f \<in> set (favorites s). user f = user_id auth \<and> product f = pk p}"
  by (auto simp: get_favorites_def)

lemma links_of_pair_le_1:
  assumes "distinct (map (\<lambda>f. (user f, product f)) fs)"
  shows "length (filter (\<lambda>f. product f = k \<and> user f = u) fs) \<le> 1"
  using assms
proof (induction fs)
  case Nil
  then show ?case by simp
next
  case (Cons f fs)
  show ?case
  proof (cases "product f = k \<and> user f = u")
    case True
    with Cons.prems have "\<forall>g \<in> set fs. \<not> (product g = k \<and> user g = u)"
      by (auto simp: image_iff)
    then have "filter (\<lambda>f. product f = k \<and> user f = u) fs = []"
      by (simp add: filter_empty_conv)
    with True show ?thesis by simp
  next
    case False
    from Cons.prems have "distinct (map (\<lambda>f. (user f, product f)) fs)" by simp
    then have "length (filter (\<lambda>f. product f = k \<and> user f = u) fs) \<le> 1"
      by (rule Cons.IH)
    with False show ?thesis by auto
  qed
qed

lemma distinct_join:
  assumes "distinct (map pk ps)"
    and "distinct (map (\<lambda>f. (user f, product f)) fs)"
  shows "distinct (concat (map (\<lambda>p. map (\<lambda>f. p)
            (filter (\<lambda>f. product f = pk p \<and> user f = u) fs)) ps))"
  using assms(1)
proof (induction ps)
  case Nil
  then show ?case by simp
next
  case (Cons p ps)
  have "length (filter (\<lambda>f. product f = pk p \<and> user f = u) fs) \<le> 1"
    by (rule links_of_pair_le_1 [OF assms(2)])
  then have one: "distinct (map (\<lambda>f. p) (filter (\<lambda>f. product f = pk p \<and> user f = u) fs))"
    by (cases "filter (\<lambda>f. product f = pk p \<and> user f = u) fs") auto
  from Cons.prems have "p \<notin> set ps" by auto
  then have "p \<notin> set (concat (map (\<lambda>p. map (\<lambda>f. p)
            (filter (\<lambda>f. product f = pk p \<and> user f = u) fs)) ps))"
    by auto
  with one Cons show ?case by auto
qed

text \<open>
  Claim C3, as the code has it. The list-favorites query returns exactly the products the
  user has a favorite link to, each once under the constraints of the schema, in the order
  of the \<^verbatim>\<open>date_created\<close> column of the product table: the instants at which the product
  rows were created, not those at which the user favorited them.
\<close>

theorem get_favorites_products_by_product_creation:
  "set (get_favorites auth s) =
     {p \<in> set (products s).
        \<exists>f \<in> set (favorites s). user f = user_id auth \<and> product f = pk p} \<and>
   sorted (map date_created (get_favorites auth s)) \<and>
   (constraints s \<longrightarrow> distinct (get_favorites auth s))"
proof (intro conjI impI)
  show "set (get_favorites auth s) =
     {p \<in> set (products s).
        \<exists>f \<in> set (favorites s). user f = user_id auth \<and> product f = pk p}"
    by (rule set_get_favorites)
  show "sorted (map date_created (get_favorites auth s))"
    by (simp add: get_favorites_def)
  assume "constraints s"
  then have "distinct (map pk (products s))"
    and "distinct (map (\<lambda>f. (user f, product f)) (favorites s))"
    by (simp_all add: constraints_def)
  then show "distinct (get_favorites auth s)"
    unfolding get_favorites_def by (simp add: distinct_join)
qed

text \<open>The theorem at work on \<open>store3\<close>, for Bob.\<close>

theorem get_favorites_products_by_product_creation_witness:
  "constraints store3 \<and>
   get_favorites bob store3 = [backpack_row, shirt_row] \<and>
   set (get_favorites bob store3) = {backpack_row, shirt_row} \<and>
   sorted (map date_created (get_favorites bob store3)) \<and>
   distinct (get_favorites bob store3)"
proof -
  have c: "constraints store3" by code_simp
  have r: "get_favorites bob store3 = [backpack_row, shirt_row]" by code_simp
  from get_favorites_products_by_product_creation [of bob store3] c
  have "sorted (map date_created (get_favorites bob store3)) \<and>
        distinct (get_favorites bob store3)" by simp
  with c r show ?thesis by simp
qed

text \<open>
  Claim C3, as stated, fails. Ann favorites product 1, which creates its row at instant 5;
  Bob favorites product 2 at instant 6 and then product 1 at instant 7. Bob's list starts
  with product 1, the product he favorited last: the instants of his two links, in the
  order of the list, are 7 and 6.
\<close>

theorem get_favorites_order_counterexample:
  "add_favorite demo_python catalog 5 ann 1 store0 = Inr ((201, ProductBody backpack_row), store1) \<and>
   add_favorite demo_python catalog 6 bob 2 store1 = Inr ((201, ProductBody shirt_row), store2) \<and>
   add_favorite demo_python catalog 7 bob 1 store2 = Inr ((201, ProductBody backpack_row), store3) \<and>
   get_favorites bob store3 = [backpack_row, shirt_row] \<and>
   map (favorite_created store3 bob) (get_favorites bob store3) = [[7], [6]] \<and>
   \<not> sorted (concat (map (favorite_created store3 bob) (get_favorites bob store3)))"
proof -
  have a1: "add_favorite demo_python catalog 5 ann 1 store0 =
      Inr ((201, ProductBody backpack_row), store1)" by code_simp
  have a2: "add_favorite demo_python catalog 6 bob 2 store1 =
      Inr ((201, ProductBody shirt_row), store2)" by code_simp
  have a3: "add_favorite demo_python catalog 7 bob 1 store2 =
      Inr ((201, ProductBody backpack_row), store3)" by code_simp
  have r: "get_favorites bob store3 = [backpack_row, shirt_row]" by code_simp
  have t: "map (favorite_created store3 bob) (get_favorites bob store3) = [[7], [6]]"
    by code_simp
  from a1 a2 a3 r t show ?thesis by simp
qed

section \<open>Updating a user\<close>

lemma payload_dict_password:
  "(case map_of (payload_dict payload) ''password'' of None \<Rightarrow> None | Some v \<Rightarrow> v) =
     (case password_in payload of None \<Rightarrow> None | Some v \<Rightarrow> v)"
  by (simp add: payload_dict_def split: option.splits)

lemma payload_dict_fields:
  "fold (\<lambda>kv obj. setattr obj kv)
      (filter (\<lambda>kv. fst kv \<noteq> ''password'') (payload_dict payload)) (load_user u) =
     \<lparr>obj_row = u,
      obj_name = (case name_in payload of None \<Rightarrow> Some (name u) | Some v \<Rightarrow> v),
      obj_email = (case email_in payload of None \<Rightarrow> Some (email u) | Some v \<Rightarrow> v),
      obj_password = Some (password u)\<rparr>"
  by (simp add: payload_dict_def setattr_def load_user_def split: option.splits)

text \<open>What \<^verbatim>\<open>update_user\<close> has in hand when it calls \<^verbatim>\<open>user.save()\<close>.\<close>

lemma update_user_unfold:
  assumes "get_user_by_pk s uid = Some u" and "email_check payload s = None"
  shows "update_user make_password uid payload s =
     (case user_save
         \<lparr>obj_row = u,
          obj_name = (case name_in payload of None \<Rightarrow> Some (name u) | Some v \<Rightarrow> v),
          obj_email = (case email_in payload of None \<Rightarrow> Some (email u) | Some v \<Rightarrow> v),
          obj_password =
            Some (case password_in payload of
               Some (Some raw) \<Rightarrow> if raw \<noteq> [] then make_password raw else password u
             | _ \<Rightarrow> password u)\<rparr> s of
        Inl e \<Rightarrow> Inl e
      | Inr (u', s') \<Rightarrow> Inr ((200, UserBody u'), s'))"
  using assms
  unfolding update_user_def Let_def payload_dict_password payload_dict_fields
  by (simp add: set_password_def split: option.splits)

lemma update_user_400:
  "update_user make_password uid payload s = Inr ((400, b), s') \<Longrightarrow>
   s' = s \<and>
   (b = Message UserNotFound \<and> get_user_by_pk s uid = None \<or>
    b = Message EmailInUse \<and> get_user_by_pk s uid \<noteq> None \<and> email_check payload s \<noteq> None)"
  unfolding update_user_def Let_def
  by (auto split: option.splits sum.splits prod.splits)

lemma email_check_None_iff:
  "email_check payload s = None \<longleftrightarrow>
     (\<forall>e. payload_email payload = Some e \<longrightarrow> e \<notin> email ` set (users s))"
proof (cases "payload_email payload")
  case None
  then show ?thesis by (simp add: email_check_def)
next
  case (Some e)
  have "filter (\<lambda>v. email v = e) (users s) = [] \<longleftrightarrow> e \<notin> email ` set (users s)"
    by (auto simp: filter_empty_conv)
  with Some show ?thesis by (simp add: email_check_def)
qed

lemma email_check_Some_iff:
  "email_check payload s \<noteq> None \<longleftrightarrow>
     (\<exists>e. payload_email payload = Some e \<and> e \<in> email ` set (users s))"
  unfolding email_check_None_iff by blast

text \<open>
  When the endpoint answers "email in use": the user exists, the payload carries an email,
  and some row of the user table has it. The row of the user being updated counts.
\<close>

lemma update_user_email_in_use_iff:
  "update_user make_password uid payload s = Inr ((400, Message EmailInUse), s) \<longleftrightarrow>
     get_user_by_pk s uid \<noteq> None \<and>
     (\<exists>e. payload_email payload = Some e \<and> e \<in> email ` set (users s))"
proof
  assume "update_user make_password uid payload s = Inr ((400, Message EmailInUse), s)"
  from update_user_400 [OF this]
  have "get_user_by_pk s uid \<noteq> None \<and> email_check payload s \<noteq> None"
    by (simp add: UserNotFound_def EmailInUse_def)
  then show "get_user_by_pk s uid \<noteq> None \<and>
     (\<exists>e. payload_email payload = Some e \<and> e \<in> email ` set (users s))"
    unfolding email_check_Some_iff .
next
  assume "get_user_by_pk s uid \<noteq> None \<and>
     (\<exists>e. payload_email payload = Some e \<and> e \<in> email ` set (users s))"
  then have "get_user_by_pk s uid \<noteq> None" "email_check payload s \<noteq> None"
    unfolding email_check_Some_iff by blast+
  then show "update_user make_password uid payload s = Inr ((400, Message EmailInUse), s)"
    unfolding update_user_def Let_def by (auto split: option.splits)
qed

text \<open>
  Claim C2 fails on the code. Ann's own row holds the address \<^verbatim>\<open>ann@example.com\<close> and no
  other row does; an update of Ann that carries her address next to a new name is refused
  with "The provided email is already in use.", and nothing is applied.
\<close>

theorem update_user_own_email_refused:
  "update_user demo_hash 1
     \<lparr>name_in = Some (Some ''Ann Lee''), email_in = Some (Some ''ann@example.com''),
      password_in = None\<rparr> store0 =
   Inr ((400, Message EmailInUse), store0) \<and>
   map user_id (filter (\<lambda>v. email v = ''ann@example.com'') (users store0)) = [1]"
  by code_simp

lemma user_save_Inr:
  assumes "user_save obj s = Inr (u', s')"
  shows "\<exists>n e pw. obj_name obj = Some n \<and> obj_email obj = Some e \<and>
           obj_password obj = Some pw \<and>
           u' = (obj_row obj)\<lparr>name := n, email := e, password := pw\<rparr> \<and>
           s' = s\<lparr>users := map (\<lambda>v. if user_id v = user_id (obj_row obj) then u' else v)
                               (users s)\<rparr>"
  using assms unfolding user_save_def Let_def
  by (auto split: option.splits if_splits)

lemma user_save_unique_email:
  assumes "distinct (map email (users s))" and "u \<in> set (users s)"
  shows "user_save \<lparr>obj_row = u, obj_name = Some n, obj_email = Some (email u),
                    obj_password = Some pw\<rparr> s =
         Inr (u\<lparr>name := n, password := pw\<rparr>,
              s\<lparr>users := map (\<lambda>v. if user_id v = user_id u
                                    then u\<lparr>name := n, password := pw\<rparr> else v) (users s)\<rparr>)"
proof -
  have "\<not> list_ex (\<lambda>v. user_id v \<noteq> user_id u \<and> email v = email u) (users s)"
  proof
    assume "list_ex (\<lambda>v. user_id v \<noteq> user_id u \<and> email v = email u) (users s)"
    then obtain v where v: "v \<in> set (users s)" "user_id v \<noteq> user_id u" "email v = email u"
      by (auto simp: list_ex_iff)
    from assms(1) have "inj_on email (set (users s))" by (simp add: distinct_map)
    with v(1,3) assms(2) have "v = u" by (auto dest: inj_onD)
    with v(2) show False by simp
  qed
  then show ?thesis by (simp add: user_save_def Let_def)
qed

text \<open>
  Claim C8, as the code has it. When an update answers 200, the stored user differs from
  the old row only in the fields the payload set: a name or an email that is absent keeps
  its value and one that is present takes the value sent; the password keeps its value
  when the field is absent, \<^verbatim>\<open>null\<close> or the empty string, and otherwise becomes what the
  hashing routine makes of the text sent, which itself is never written; id and role stay,
  and so do all other rows and tables. Under the constraints of the schema a payload that
  sets only the name always answers 200 and changes the name alone.
\<close>

theorem update_user_partial_update:
  "(update_user make_password uid payload s = Inr ((200, b), s') \<longrightarrow>
      (\<exists>u u'. get_user_by_pk s uid = Some u \<and> b = UserBody u' \<and>
         users s' = map (\<lambda>v. if user_id v = uid then u' else v) (users s) \<and>
         tokens s' = tokens s \<and> products s' = products s \<and> favorites s' = favorites s \<and>
         user_id u' = uid \<and> role u' = role u \<and>
         name u' = (case name_in payload of Some (Some x) \<Rightarrow> x | _ \<Rightarrow> name u) \<and>
         email u' = (case email_in payload of Some (Some x) \<Rightarrow> x | _ \<Rightarrow> email u) \<and>
         password u' =
           (case password_in payload of
              Some (Some raw) \<Rightarrow> if raw = [] then password u else make_password raw
            | _ \<Rightarrow> password u))) \<and>
   (constraints s \<longrightarrow> get_user_by_pk s uid = Some v \<longrightarrow>
      update_user make_password uid
          \<lparr>name_in = Some (Some x), email_in = None, password_in = None\<rparr> s =
        Inr ((200, UserBody (v\<lparr>name := x\<rparr>)),
             s\<lparr>users := map (\<lambda>w. if user_id w = uid then v\<lparr>name := x\<rparr> else w) (users s)\<rparr>))"
proof (intro conjI impI)
  assume ok: "update_user make_password uid payload s = Inr ((200, b), s')"
  have "get_user_by_pk s uid \<noteq> None"
  proof
    assume "get_user_by_pk s uid = None"
    then have "update_user make_password uid payload s = Inr ((400, Message UserNotFound), s)"
      by (simp add: update_user_def Let_def)
    with ok show False by simp
  qed
  then obtain u where u: "get_user_by_pk s uid = Some u" by auto
  then have uid: "user_id u = uid" by (simp add: get_user_by_pk_Some)
  have chk: "email_check payload s = None"
  proof (rule ccontr)
    assume "email_check payload s \<noteq> None"
    then have "update_user make_password uid payload s = Inr ((400, Message EmailInUse), s)"
      using u by (auto simp: update_user_def Let_def)
    with ok show False by simp
  qed
  define obj where "obj =
     \<lparr>obj_row = u,
      obj_name = (case name_in payload of None \<Rightarrow> Some (name u) | Some v \<Rightarrow> v),
      obj_email = (case email_in payload of None \<Rightarrow> Some (email u) | Some v \<Rightarrow> v),
      obj_password =
        Some (case password_in payload of
           Some (Some raw) \<Rightarrow> if raw \<noteq> [] then make_password raw else password u
         | _ \<Rightarrow> password u)\<rparr>"
  from ok have "(case user_save obj s of Inl e \<Rightarrow> Inl e
      | Inr (u', s') \<Rightarrow> Inr ((200::nat, UserBody u'), s')) = Inr ((200::nat, b), s')"
    unfolding obj_def update_user_unfold [OF u chk] .
  then obtain u' where sv: "user_save obj s = Inr (u', s')" and b: "b = UserBody u'"
    by (auto split: sum.splits prod.splits)
  from user_save_Inr [OF sv] obtain n e pw where
    ne: "obj_name obj = Some n" "obj_email obj = Some e" "obj_password obj = Some pw" and
    u': "u' = u\<lparr>name := n, email := e, password := pw\<rparr>" and
    s': "s' = s\<lparr>users := map (\<lambda>v. if user_id v = user_id u then u' else v) (users s)\<rparr>"
    by (auto simp: obj_def)
  have nm: "name u' = (case name_in payload of Some (Some x) \<Rightarrow> x | _ \<Rightarrow> name u)"
    using ne(1) by (auto simp: u' obj_def split: option.splits)
  have em: "email u' = (case email_in payload of Some (Some x) \<Rightarrow> x | _ \<Rightarrow> email u)"
    using ne(2) by (auto simp: u' obj_def split: option.splits)
  have pw: "password u' =
           (case password_in payload of
              Some (Some raw) \<Rightarrow> if raw = [] then password u else make_password raw
            | _ \<Rightarrow> password u)"
    using ne(3) by (auto simp: u' obj_def split: option.splits)
  show "\<exists>u u'. get_user_by_pk s uid = Some u \<and> b = UserBody u' \<and>
         users s' = map (\<lambda>v. if user_id v = uid then u' else v) (users s) \<and>
         tokens s' = tokens s \<and> products s' = products s \<and> favorites s' = favorites s \<and>
         user_id u' = uid \<and> role u' = role u \<and>
         name u' = (case name_in payload of Some (Some x) \<Rightarrow> x | _ \<Rightarrow> name u) \<and>
         email u' = (case email_in payload of Some (Some x) \<Rightarrow> x | _ \<Rightarrow> email u) \<and>
         password u' =
           (case password_in payload of
              Some (Some raw) \<Rightarrow> if raw = [] then password u else make_password raw
            | _ \<Rightarrow> password u)"
    using u b nm em pw by (intro exI [of _ u] exI [of _ u']) (simp add: s' uid u')
next
  assume c: "constraints s" and v: "get_user_by_pk s uid = Some v"
  let ?payload = "\<lparr>name_in = Some (Some x), email_in = None, password_in = None\<rparr>"
  from v have vin: "v \<in> set (users s)" and uid: "user_id v = uid"
    by (simp_all add: get_user_by_pk_Some)
  from c have d: "distinct (map email (users s))" by (simp add: constraints_def)
  have chk: "email_check ?payload s = None"
    by (simp add: email_check_def payload_email_def)
  show "update_user make_password uid ?payload s =
        Inr ((200, UserBody (v\<lparr>name := x\<rparr>)),
             s\<lparr>users := map (\<lambda>w. if user_id w = uid then v\<lparr>name := x\<rparr> else w) (users s)\<rparr>)"
    unfolding update_user_unfold [OF v chk]
    using user_save_unique_email [OF d vin, of x "password v"] by (simp add: uid)
qed

text \<open>
  The theorem at work: a payload with only a name renames Ann; a payload with a password
  stores its hash.
\<close>

theorem update_user_partial_update_witness:
  "constraints store0 \<and> get_user_by_pk store0 1 = Some ann \<and>
   update_user demo_hash 1 \<lparr>name_in = Some (Some ''X''), email_in = None, password_in = None\<rparr>
       store0 =
     Inr ((200, UserBody (ann\<lparr>name := ''X''\<rparr>)), store0\<lparr>users := [ann\<lparr>name := ''X''\<rparr>, bob]\<rparr>) \<and>
   update_user demo_hash 2
       \<lparr>name_in = None, email_in = None, password_in = Some (Some ''secret'')\<rparr> store0 =
     Inr ((200, UserBody (bob\<lparr>password := ''hash:secret''\<rparr>)),
          store0\<lparr>users := [ann, bob\<lparr>password := ''hash:secret''\<rparr>]\<rparr>) \<and>
   name (bob\<lparr>password := ''hash:secret''\<rparr>) = name bob \<and>
   email (bob\<lparr>password := ''hash:secret''\<rparr>) = email bob"
proof -
  have c: "constraints store0" by code_simp
  have g: "get_user_by_pk store0 1 = Some ann" by code_simp
  have g2: "get_user_by_pk store0 2 = Some bob" by code_simp
  have m: "map (\<lambda>w. if user_id w = 1 then ann\<lparr>name := ''X''\<rparr> else w) (users store0) =
      [ann\<lparr>name := ''X''\<rparr>, bob]"
    by (simp add: store0_def ann_def bob_def)
  have r1: "update_user demo_hash 1
       \<lparr>name_in = Some (Some ''X''), email_in = None, password_in = None\<rparr> store0 =
     Inr ((200, UserBody (ann\<lparr>name := ''X''\<rparr>)), store0\<lparr>users := [ann\<lparr>name := ''X''\<rparr>, bob]\<rparr>)"
    using update_user_partial_update [of demo_hash 1 _ store0 _ _ ann "''X''"] c g m
    by simp
  have r2: "update_user demo_hash 2
       \<lparr>name_in = None, email_in = None, password_in = Some (Some ''secret'')\<rparr> store0 =
     Inr ((200, UserBody (bob\<lparr>password := ''hash:secret''\<rparr>)),
          store0\<lparr>users := [ann, bob\<lparr>password := ''hash:secret''\<rparr>]\<rparr>)"
    by code_simp
  from update_user_partial_update [of demo_hash 2
       "\<lparr>name_in = None, email_in = None, password_in = Some (Some ''secret'')\<rparr>" store0
       "UserBody (bob\<lparr>password := ''hash:secret''\<rparr>)"
       "store0\<lparr>users := [ann, bob\<lparr>password := ''hash:secret''\<rparr>]\<rparr>"] r2 g2
  have "name (bob\<lparr>password := ''hash:secret''\<rparr>) = name bob \<and>
        email (bob\<lparr>password := ''hash:secret''\<rparr>) = email bob" by auto
  with c g r1 r2 show ?thesis by simp
qed

text \<open>
  Claim C8, as stated, fails where it says that a password that is supplied is stored
  hashed: an empty password is supplied here, the answer is 200, and the stored password
  is the old one, not the hash of the empty string.
\<close>

theorem update_user_empty_password_counterexample:
  "update_user demo_hash 1 \<lparr>name_in = None, email_in = None, password_in = Some (Some [])\<rparr>
       store0 =
     Inr ((200, UserBody ann), store0) \<and>
   password ann = ''hash:a'' \<and> demo_hash [] = ''hash:''"
  by code_simp

section \<open>Creating a product from catalog data\<close>

lemma product_insert_Inr:
  assumes "product_insert py now obj s = Inr (p, s')"
  shows "int_field py (obj_api_id obj) = Inr (Some (api_id p)) \<and>
         (case obj_rating_count obj of None \<Rightarrow> Inr None | Some v \<Rightarrow> int_field py v) =
           Inr (rating_count p) \<and>
         rating_rate p = obj_rating_rate obj \<and> price p = obj_price obj \<and>
         char_field py (obj_title obj) = Some (title p) \<and>
         char_field py (obj_description obj) = Some (description p) \<and>
         char_field py (obj_category obj) = Some (category p) \<and>
         char_field py (obj_image obj) = Some (image_url p) \<and>
         pk p = fresh_pk (map pk (products s)) \<and> date_created p = now \<and>
         api_id p \<notin> api_id ` set (products s) \<and>
         s' = s\<lparr>products := products s @ [p]\<rparr>"
proof -
  from assms obtain a c where
    a: "int_field py (obj_api_id obj) = Inr a" and
    c: "(case obj_rating_count obj of None \<Rightarrow> Inr None | Some v \<Rightarrow> int_field py v) = Inr c" and
    rest: "(case (a, char_field py (obj_title obj), char_field py (obj_description obj),
             char_field py (obj_category obj), char_field py (obj_image obj)) of
         (Some a', Some t, Some d, Some cat, Some img) \<Rightarrow>
           if list_ex (\<lambda>p. api_id p = a') (products s) then Inl IntegrityError
           else
             let row = \<lparr>pk = fresh_pk (map pk (products s)), date_created = now,
                        date_changed = now, active = True, api_id = a', title = t,
                        price = obj_price obj, description = d, category = cat,
                        image_url = img, rating_rate = obj_rating_rate obj,
                        rating_count = c\<rparr>
             in Inr (row, s\<lparr>products := products s @ [row]\<rparr>)
       | _ \<Rightarrow> Inl IntegrityError) = Inr (p, s')"
    unfolding product_insert_def and_then_eq_Inr by blast
  from rest obtain a' t d cat img where
    v: "a = Some a'" "char_field py (obj_title obj) = Some t"
      "char_field py (obj_description obj) = Some d"
      "char_field py (obj_category obj) = Some cat"
      "char_field py (obj_image obj) = Some img"
    by (auto split: option.splits)
  from rest have nodup: "\<not> list_ex (\<lambda>p. api_id p = a') (products s)"
    by (auto simp: v split: if_splits)
  with rest have p: "p = \<lparr>pk = fresh_pk (map pk (products s)), date_created = now,
                        date_changed = now, active = True, api_id = a', title = t,
                        price = obj_price obj, description = d, category = cat,
                        image_url = img, rating_rate = obj_rating_rate obj,
                        rating_count = c\<rparr>"
    and s': "s' = s\<lparr>products := products s @ [p]\<rparr>"
    by (auto simp: v Let_def)
  from nodup have "a' \<notin> api_id ` set (products s)" by (auto simp: list_ex_iff)
  with a c v s' show ?thesis by (simp add: p)
qed

lemma create_product_Inr:
  assumes "create_product_from_api_data py now data s = Inr (p, s')"
  shows "\<exists>v_id v_title v_description v_category v_image v_price_json v_count.
           subscript data ''id'' = Inr v_id \<and>
           subscript data ''title'' = Inr v_title \<and>
           subscript data ''price'' = Inr v_price_json \<and>
           Decimal_str py v_price_json = Inr (price p) \<and>
           subscript data ''description'' = Inr v_description \<and>
           subscript data ''category'' = Inr v_category \<and>
           subscript data ''image'' = Inr v_image \<and>
           rating_rate_arg py data = Inr (rating_rate p) \<and>
           rating_count_arg data = Inr v_count \<and>
           product_insert py now
             \<lparr>obj_api_id = v_id, obj_title = v_title, obj_price = price p,
              obj_description = v_description, obj_category = v_category,
              obj_image = v_image, obj_rating_rate = rating_rate p,
              obj_rating_count = v_count\<rparr> s = Inr (p, s')"
proof -
  from assms obtain v_id v_title v_price_json v_price v_description v_category v_image
      v_rate v_count where
    f: "subscript data ''id'' = Inr v_id" "subscript data ''title'' = Inr v_title"
      "subscript data ''price'' = Inr v_price_json" "Decimal_str py v_price_json = Inr v_price"
      "subscript data ''description'' = Inr v_description"
      "subscript data ''category'' = Inr v_category" "subscript data ''image'' = Inr v_image"
      "rating_rate_arg py data = Inr v_rate" "rating_count_arg data = Inr v_count" and
    ins: "product_insert py now
             \<lparr>obj_api_id = v_id, obj_title = v_title, obj_price = v_price,
              obj_description = v_description, obj_category = v_category,
              obj_image = v_image, obj_rating_rate = v_rate,
              obj_rating_count = v_count\<rparr> s = Inr (p, s')"
    unfolding create_product_from_api_data_def and_then_eq_Inr by blast
  from product_insert_Inr [OF ins] have "rating_rate p = v_rate" "price p = v_price"
    by simp_all
  with f ins show ?thesis by blast
qed

text \<open>The two conditional expressions give \<^verbatim>\<open>None\<close> exactly when their test fails.\<close>

lemma rating_rate_arg_None:
  "rating_rate_arg py data = Inr v \<Longrightarrow> v = None \<longleftrightarrow> rating_has data ''rate'' = Inr False"
  unfolding rating_rate_arg_def
  by (auto simp: and_then_eq_Inr split: if_splits)

lemma rating_count_arg_None:
  "rating_count_arg data = Inr v \<Longrightarrow> v = None \<longleftrightarrow> rating_has data ''count'' = Inr False"
  unfolding rating_count_arg_def
  by (auto simp: and_then_eq_Inr split: if_splits)

lemma dict_get_of_subscript: "subscript data k = Inr v \<Longrightarrow> dict_get data k = Inr v"
  by (auto simp: subscript_def dict_get_def split: json.splits option.splits)

lemma dict_get_of_KeyError: "subscript data k = Inl KeyError \<Longrightarrow> dict_get data k = Inr JNull"
  by (auto simp: subscript_def dict_get_def split: json.splits option.splits)

lemma rating_has_falsy:
  assumes "subscript data ''rating'' = Inr r" and "subscript r k = Inr x" and "\<not> truthy x"
  shows "rating_has data k = Inr False"
  using assms dict_get_of_subscript [OF assms(1)] dict_get_of_subscript [OF assms(2)]
  by (simp add: rating_has_def)

lemma rating_has_missing:
  assumes "subscript data ''rating'' = Inl KeyError"
  shows "rating_has data k = Inr False"
  using dict_get_of_KeyError [OF assms] by (simp add: rating_has_def truthy_def)

lemma rating_has_no_key:
  assumes "subscript data ''rating'' = Inr r" and "subscript r k = Inl KeyError"
  shows "rating_has data k = Inr False"
  using assms dict_get_of_subscript [OF assms(1)] dict_get_of_KeyError [OF assms(2)]
  by (simp add: rating_has_def truthy_def)

lemma int_field_truthy_None:
  "int_field py v = Inr None \<Longrightarrow> \<not> truthy v"
  by (auto simp: int_field_def truthy_def split: json.splits option.splits)

text \<open>
  Claim C10. A zero, as an integer or as a float, is false in a test. Whenever
  \<^verbatim>\<open>create_product_from_api_data\<close> creates a product, the row it appends to the product
  table has \<^verbatim>\<open>rating_rate\<close> null if \<^verbatim>\<open>data["rating"]["rate"]\<close> is zero (or any other value
  that tests false), has \<^verbatim>\<open>rating_count\<close> null, not 0, if \<^verbatim>\<open>data["rating"]["count"]\<close> is
  zero, and has both null if the payload has no rating object.
\<close>

theorem create_product_zero_rating_is_null:
  "\<not> truthy (JInt 0) \<and> \<not> truthy (JFloat 0) \<and>
   (create_product_from_api_data py now data s = Inr (p, s') \<longrightarrow>
      products s' = products s @ [p] \<and>
      (\<forall>r x. subscript data ''rating'' = Inr r \<longrightarrow> subscript r ''rate'' = Inr x \<longrightarrow>
             \<not> truthy x \<longrightarrow> rating_rate p = None) \<and>
      (\<forall>r x. subscript data ''rating'' = Inr r \<longrightarrow> subscript r ''count'' = Inr x \<longrightarrow>
             \<not> truthy x \<longrightarrow> rating_count p = None) \<and>
      (subscript data ''rating'' = Inl KeyError \<longrightarrow>
         rating_rate p = None \<and> rating_count p = None))"
proof (intro conjI impI allI)
  show "\<not> truthy (JInt 0)" and "\<not> truthy (JFloat 0)"
    by (simp_all add: truthy_def)
next
  assume ok: "create_product_from_api_data py now data s = Inr (p, s')"
  from create_product_Inr [OF ok] obtain v_id v_title v_description v_category v_image v_count
    where rate: "rating_rate_arg py data = Inr (rating_rate p)"
      and count: "rating_count_arg data = Inr v_count"
      and ins: "product_insert py now
             \<lparr>obj_api_id = v_id, obj_title = v_title, obj_price = price p,
              obj_description = v_description, obj_category = v_category,
              obj_image = v_image, obj_rating_rate = rating_rate p,
              obj_rating_count = v_count\<rparr> s = Inr (p, s')"
    by blast
  from product_insert_Inr [OF ins]
  have cnt: "(case v_count of None \<Rightarrow> Inr None | Some v \<Rightarrow> int_field py v) = Inr (rating_count p)"
    and s': "s' = s\<lparr>products := products s @ [p]\<rparr>"
    by simp_all
  have no_count: "rating_count p = None" if "rating_has data ''count'' = Inr False"
  proof -
    from that rating_count_arg_None [OF count] have "v_count = None" by simp
    with cnt show ?thesis by simp
  qed
  have no_rate: "rating_rate p = None" if "rating_has data ''rate'' = Inr False"
    using that rating_rate_arg_None [OF rate] by simp
  show "products s' = products s @ [p]" by (simp add: s')
  {
    fix r x
    assume "subscript data ''rating'' = Inr r" "subscript r ''rate'' = Inr x" "\<not> truthy x"
    then show "rating_rate p = None" by (intro no_rate rating_has_falsy)
  }
  {
    fix r x
    assume "subscript data ''rating'' = Inr r" "subscript r ''count'' = Inr x" "\<not> truthy x"
    then show "rating_count p = None" by (intro no_count rating_has_falsy)
  }
  {
    assume "subscript data ''rating'' = Inl KeyError"
    then show "rating_rate p = None" and "rating_count p = None"
      by (auto intro: no_rate no_count rating_has_missing)
  }
qed

text \<open>
  The theorem at work: the catalog's shirt has rate 0 and count 0, and its row has neither;
  a payload without a rating object gives the same row.
\<close>

theorem create_product_zero_rating_is_null_witness:
  "create_product_from_api_data demo_python 6 shirt store1 =
     Inr (shirt_row, store1\<lparr>products := [backpack_row, shirt_row]\<rparr>) \<and>
   subscript shirt ''rating'' = Inr (rating_obj (JInt 0) (JInt 0)) \<and>
   subscript (rating_obj (JInt 0) (JInt 0)) ''rate'' = Inr (JInt 0) \<and>
   subscript (rating_obj (JInt 0) (JInt 0)) ''count'' = Inr (JInt 0) \<and>
   rating_rate shirt_row = None \<and> rating_count shirt_row = None"
proof -
  have r: "create_product_from_api_data demo_python 6 shirt store1 =
     Inr (shirt_row, store1\<lparr>products := [backpack_row, shirt_row]\<rparr>)" by code_simp
  have a: "subscript shirt ''rating'' = Inr (rating_obj (JInt 0) (JInt 0))" by code_simp
  have b: "subscript (rating_obj (JInt 0) (JInt 0)) ''rate'' = Inr (JInt 0)" by code_simp
  have c: "subscript (rating_obj (JInt 0) (JInt 0)) ''count'' = Inr (JInt 0)" by code_simp
  from create_product_zero_rating_is_null
    [of demo_python 6 shirt store1 shirt_row "store1\<lparr>products := [backpack_row, shirt_row]\<rparr>"]
    r a b c
  have "rating_rate shirt_row = None \<and> rating_count shirt_row = None" by blast
  with r a b c show ?thesis by simp
qed

section \<open>Adding a favorite\<close>

lemma link_favorite_dup:
  "has_favorite s auth p \<Longrightarrow>
   link_favorite now auth p s =
     Inr ((400, ErrorDict ''The product selected is already on user's favorites.''), s)"
  by (simp add: link_favorite_def favorite_create_def)

lemma link_favorite_new:
  "\<not> has_favorite s auth p \<Longrightarrow>
   link_favorite now auth p s =
     Inr ((201, ProductBody p),
          s\<lparr>favorites := favorites s @
               [favorite_row (fresh_pk (map pk (favorites s))) now (user_id auth) (pk p)]\<rparr>)"
  by (simp add: link_favorite_def favorite_create_def)

lemma local_product_None: "local_product s p_id = None \<longleftrightarrow> p_id \<notin> api_id ` set (products s)"
  by (auto simp: local_product_def filter_empty_conv)

lemma local_product_Some:
  "local_product s p_id = Some p \<Longrightarrow> p \<in> set (products s) \<and> api_id p = p_id"
proof -
  assume "local_product s p_id = Some p"
  then obtain rest where "filter (\<lambda>p. api_id p = p_id) (products s) = p # rest"
    by (auto simp: local_product_def first_row_def split: list.splits)
  then have "p \<in> set (filter (\<lambda>p. api_id p = p_id) (products s))" by simp
  then show ?thesis by simp
qed

text \<open>Under the constraints a catalog id names at most one row, which the lookup finds.\<close>

lemma local_product_unique:
  assumes "distinct (map api_id (products s))" and "p \<in> set (products s)"
  shows "local_product s (api_id p) = Some p"
proof -
  have "local_product s (api_id p) \<noteq> None"
    using assms(2) by (simp add: local_product_None)
  then obtain q where q: "local_product s (api_id p) = Some q" by auto
  from local_product_Some [OF q] have "q \<in> set (products s)" "api_id q = api_id p" by simp_all
  with assms have "q = p" by (metis distinct_map inj_onD)
  with q show ?thesis by simp
qed

text \<open>A row that was just inserted has a key that no link points to.\<close>

lemma new_product_not_favorited:
  assumes c: "constraints s" and ins: "product_insert py now obj s = Inr (p, s')"
  shows "\<not> has_favorite s' auth p"
proof
  assume "has_favorite s' auth p"
  moreover from product_insert_Inr [OF ins]
  have k: "pk p = fresh_pk (map pk (products s))" and s': "s' = s\<lparr>products := products s @ [p]\<rparr>"
    by simp_all
  ultimately obtain f where f: "f \<in> set (favorites s)" "product f = pk p"
    by (auto simp: has_favorite_def list_ex_iff)
  from c f(1) have "list_ex (\<lambda>q. pk q = product f) (products s)"
    by (simp add: constraints_def list_all_iff)
  then have "product f \<in> set (map pk (products s))" by (force simp: list_ex_iff)
  with f(2) k show False using fresh_pk_fresh [of "map pk (products s)"] by simp
qed

lemma create_product_not_favorited:
  assumes c: "constraints s" and ok: "create_product_from_api_data py now data s = Inr (p, s')"
  shows "\<not> has_favorite s' auth p"
proof -
  from create_product_Inr [OF ok] obtain obj where "product_insert py now obj s = Inr (p, s')"
    by blast
  with c show ?thesis by (rule new_product_not_favorited)
qed

text \<open>The three ways through \<^verbatim>\<open>add_favorite\<close>.\<close>

lemma add_favorite_local:
  "local_product s p_id = Some p \<Longrightarrow>
   add_favorite py client now auth p_id s = link_favorite now auth p s"
  by (simp add: add_favorite_def)


lemma add_favorite_created:
  assumes absent: "p_id \<notin> api_id ` set (products s)"
    and ok: "and_then (client p_id) (\<lambda>data. create_product_from_api_data py now data s) =
               Inr (p, s1)"
    and c: "constraints s"
  shows "add_favorite py client now auth p_id s =
             Inr ((201, ProductBody p),
                  s1\<lparr>favorites := favorites s @
                        [favorite_row (fresh_pk (map pk (favorites s))) now (user_id auth)
                           (pk p)]\<rparr>) \<and>
         products s1 = products s @ [p]"
proof -
  from ok obtain data where cr: "create_product_from_api_data py now data s = Inr (p, s1)"
    by (auto simp: and_then_eq_Inr)
  from create_product_Inr [OF cr] obtain obj where "product_insert py now obj s = Inr (p, s1)"
    by blast
  from product_insert_Inr [OF this] have s1: "s1 = s\<lparr>products := products s @ [p]\<rparr>"
    by simp
  have "\<not> has_favorite s1 auth p" by (rule create_product_not_favorited [OF c cr])
  then have "link_favorite now auth p s1 =
      Inr ((201, ProductBody p),
          s1\<lparr>favorites := favorites s1 @
               [favorite_row (fresh_pk (map pk (favorites s1))) now (user_id auth) (pk p)]\<rparr>)"
    by (rule link_favorite_new)
  with absent ok show ?thesis
    by (simp add: add_favorite_def local_product_None [symmetric] s1)
qed




text \<open>
  Claim C4. From a store that satisfies the constraints of the schema and has no product
  with catalog id \<open>p_id\<close>, let the catalog answer the request for \<open>p_id\<close> with a payload
  whose id is \<open>p_id\<close> and from which a product can be created. When two different users
  favorite \<open>p_id\<close> one after the other, both get 201 with the same product, the product
  table has gained exactly that one row and no other row has the catalog id, and the links
  to it are exactly two, one of each user.
\<close>

theorem add_favorite_two_users_one_product:
  assumes c: "constraints s"
    and absent: "p_id \<notin> api_id ` set (products s)"
    and users: "user_id a \<noteq> user_id b"
    and fetch: "client p_id = Inr data"
    and id: "subscript data ''id'' = Inr (JInt p_id)"
    and created: "create_product_from_api_data py t1 data s = Inr (p, s1)"
  shows "\<exists>s2 s3.
           add_favorite py client t1 a p_id s = Inr ((201, ProductBody p), s2) \<and>
           add_favorite py client t2 b p_id s2 = Inr ((201, ProductBody p), s3) \<and>
           products s3 = products s @ [p] \<and>
           filter (\<lambda>q. api_id q = p_id) (products s3) = [p] \<and>
           map user (filter (\<lambda>f. product_api_id_is s3 (product f) p_id) (favorites s3)) =
             [user_id a, user_id b] \<and>
           map product (filter (\<lambda>f. product_api_id_is s3 (product f) p_id) (favorites s3)) =
             [pk p, pk p]"
proof -
  from create_product_Inr [OF created] id obtain obj where
    ins: "product_insert py t1 obj s = Inr (p, s1)" and obj: "obj_api_id obj = JInt p_id"
    by force
  from product_insert_Inr [OF ins] obj have
    api: "api_id p = p_id" and k: "pk p = fresh_pk (map pk (products s))" and
    s1: "s1 = s\<lparr>products := products s @ [p]\<rparr>"
    by (simp_all add: int_field_def)
  define l1 where "l1 = favorite_row (fresh_pk (map pk (favorites s))) t1 (user_id a) (pk p)"
  define s2 where "s2 = s1\<lparr>favorites := favorites s @ [l1]\<rparr>"
  define l2 where "l2 = favorite_row (fresh_pk (map pk (favorites s2))) t2 (user_id b) (pk p)"
  define s3 where "s3 = s2\<lparr>favorites := favorites s2 @ [l2]\<rparr>"
  from fetch created
  have "and_then (client p_id) (\<lambda>data. create_product_from_api_data py t1 data s) = Inr (p, s1)"
    by simp
  from add_favorite_created [where client = client, OF absent this c]
  have first: "add_favorite py client t1 a p_id s = Inr ((201, ProductBody p), s2)"
    unfolding s2_def l1_def by simp
  have no_old: "product f \<noteq> pk p" if "f \<in> set (favorites s)" for f
  proof
    assume "product f = pk p"
    moreover from c that have "list_ex (\<lambda>q. pk q = product f) (products s)"
      by (simp add: constraints_def list_all_iff)
    then have "product f \<in> set (map pk (products s))" by (force simp: list_ex_iff)
    ultimately show False using k fresh_pk_fresh [of "map pk (products s)"] by simp
  qed
  from absent have none: "\<forall>q \<in> set (products s). api_id q \<noteq> p_id" by force
  then have only: "filter (\<lambda>q. api_id q = p_id) (products s @ [p]) = [p]"
    using api by (simp add: filter_empty_conv)
  then have loc: "local_product s2 p_id = Some p"
    by (simp add: local_product_def s2_def s1)
  have "\<not> has_favorite s2 b p"
    using users no_old
    by (auto simp: has_favorite_def list_ex_iff s2_def s1 l1_def favorite_row_def)
  then have second: "add_favorite py client t2 b p_id s2 = Inr ((201, ProductBody p), s3)"
    unfolding s3_def l2_def by (simp add: add_favorite_local [OF loc] link_favorite_new)
  have prods: "products s3 = products s @ [p]" by (simp add: s3_def s2_def s1)
  have is_p: "product_api_id_is s3 k p_id \<longleftrightarrow> k = pk p" for k
    using none api by (auto simp: product_api_id_is_def list_ex_iff prods)
  have favs: "favorites s3 = favorites s @ [l1, l2]" by (simp add: s3_def s2_def)
  have "filter (\<lambda>f. product_api_id_is s3 (product f) p_id) (favorites s3) = [l1, l2]"
    using no_old by (auto simp: is_p favs l1_def l2_def favorite_row_def filter_empty_conv)
  then have links: "map user (filter (\<lambda>f. product_api_id_is s3 (product f) p_id) (favorites s3)) =
             [user_id a, user_id b]"
    "map product (filter (\<lambda>f. product_api_id_is s3 (product f) p_id) (favorites s3)) =
             [pk p, pk p]"
    by (simp_all add: l1_def l2_def favorite_row_def)
  from first second prods only links show ?thesis by (auto simp: prods)
qed

text \<open>
  The theorem at work: product 2 is unknown to \<open>store1\<close>; Ann and then Bob favorite it.
\<close>

theorem add_favorite_two_users_one_product_witness:
  "constraints store1 \<and> 2 \<notin> api_id ` set (products store1) \<and> user_id ann \<noteq> user_id bob \<and>
   catalog 2 = Inr shirt \<and> subscript shirt ''id'' = Inr (JInt 2) \<and>
   create_product_from_api_data demo_python 6 shirt store1 =
     Inr (shirt_row, store1\<lparr>products := [backpack_row, shirt_row]\<rparr>) \<and>
   (\<exists>s2 s3.
      add_favorite demo_python catalog 6 ann 2 store1 = Inr ((201, ProductBody shirt_row), s2) \<and>
      add_favorite demo_python catalog 8 bob 2 s2 = Inr ((201, ProductBody shirt_row), s3) \<and>
      products s3 = products store1 @ [shirt_row] \<and>
      filter (\<lambda>q. api_id q = 2) (products s3) = [shirt_row] \<and>
      map user (filter (\<lambda>f. product_api_id_is s3 (product f) 2) (favorites s3)) =
        [user_id ann, user_id bob] \<and>
      map product (filter (\<lambda>f. product_api_id_is s3 (product f) 2) (favorites s3)) =
        [pk shirt_row, pk shirt_row])"
proof -
  have c: "constraints store1" by code_simp
  have a: "2 \<notin> api_id ` set (products store1)" by (simp add: store1_def backpack_row_def)
  have u: "user_id ann \<noteq> user_id bob" by (simp add: ann_def bob_def)
  have f: "catalog 2 = Inr shirt" by (simp add: catalog_def)
  have i: "subscript shirt ''id'' = Inr (JInt 2)" by code_simp
  have cr: "create_product_from_api_data demo_python 6 shirt store1 =
     Inr (shirt_row, store1\<lparr>products := [backpack_row, shirt_row]\<rparr>)" by code_simp
  from add_favorite_two_users_one_product [where client = catalog and ?t2.0 = 8, OF c a u f i cr]
    c a u f i cr
  show ?thesis by blast
qed

section \<open>The sync job\<close>

lemma int_field_JInt [simp]: "int_field py (JInt i) = Inr (Some i)"
  by (simp add: int_field_def)

lemma char_field_JStr [simp]: "char_field py (JStr t) = Some t"
  by (simp add: char_field_def)

lemma str_ne_JStr [simp]: "str_ne s (JStr t) \<longleftrightarrow> s \<noteq> t"
  by (simp add: str_ne_def)







text \<open>The job writes to no table but the product table, and there it only rewrites rows.\<close>

lemma product_update_Inr:
  assumes "product_update py now row obj s = Inr s'"
  shows "\<exists>c t d cat img.
           (case obj_rating_count obj of None \<Rightarrow> Inr None | Some v \<Rightarrow> int_field py v) = Inr c \<and>
           char_field py (obj_title obj) = Some t \<and>
           char_field py (obj_description obj) = Some d \<and>
           char_field py (obj_category obj) = Some cat \<and>
           char_field py (obj_image obj) = Some img \<and>
           s' = s\<lparr>products := map (\<lambda>p. if pk p = pk row
                  then row\<lparr>date_changed := now, title := t, price := obj_price obj,
                           description := d, category := cat, image_url := img,
                           rating_rate := obj_rating_rate obj, rating_count := c\<rparr>
                  else p) (products s)\<rparr>"
proof -
  from assms obtain c where
    c: "(case obj_rating_count obj of None \<Rightarrow> Inr None | Some v \<Rightarrow> int_field py v) = Inr c" and
    rest: "(case (char_field py (obj_title obj), char_field py (obj_description obj),
             char_field py (obj_category obj), char_field py (obj_image obj)) of
         (Some t, Some d, Some cat, Some img) \<Rightarrow>
           let row' = row\<lparr>date_changed := now, title := t, price := obj_price obj,
                          description := d, category := cat, image_url := img,
                          rating_rate := obj_rating_rate obj, rating_count := c\<rparr>
           in Inr (s\<lparr>products := map (\<lambda>p. if pk p = pk row then row' else p) (products s)\<rparr>)
       | _ \<Rightarrow> Inl IntegrityError) = Inr s'"
    unfolding product_update_def and_then_eq_Inr by blast
  from rest obtain t d cat img where
    v: "char_field py (obj_title obj) = Some t"
      "char_field py (obj_description obj) = Some d"
      "char_field py (obj_category obj) = Some cat"
      "char_field py (obj_image obj) = Some img"
    by (auto split: option.splits)
  with rest c show ?thesis by (auto simp: Let_def)
qed









section \<open>The constraints are kept\<close>

text \<open>
  The constraints of the schema are assumptions of several statements above. They hold of
  the empty store, and every operation modelled here keeps them: whatever store the
  endpoints and the sync job reach from a store that satisfies them satisfies them too.
  (For \<^verbatim>\<open>add_favorite\<close> the authenticated user is a row of the user table.)
\<close>

lemma constraints_empty: "constraints \<lparr>users = [], tokens = [], products = [], favorites = []\<rparr>"
  by (simp add: constraints_def)

lemma constraints_favorites_filter:
  assumes "constraints s"
  shows "constraints (s\<lparr>favorites := filter P (favorites s)\<rparr>)"
proof -
  from assms have
    "distinct (map pk (filter P (favorites s)))"
    "distinct (map (\<lambda>f. (user f, product f)) (filter P (favorites s)))"
    "list_all (\<lambda>f. list_ex (\<lambda>p. pk p = product f) (products s)) (filter P (favorites s))"
    "list_all (\<lambda>f. list_ex (\<lambda>u. user_id u = user f) (users s)) (filter P (favorites s))"
    by (simp_all add: constraints_def distinct_map_filter list_all_iff)
  with assms show ?thesis by (simp add: constraints_def)
qed

lemma constraints_delete_favorite:
  assumes "constraints s"
  shows "constraints (snd (delete_favorite auth p_id s))"
  using assms
  by (cases "favorites_of s auth p_id") (simp_all add: delete_favorite_def constraints_favorites_filter)

lemma constraints_user_delete:
  assumes c: "constraints s"
  shows "constraints (user_delete u s)"
proof -
  let ?U = "filter (\<lambda>v. user_id v \<noteq> user_id u) (users s)"
  let ?T = "filter (\<lambda>t. token_user t \<noteq> user_id u) (tokens s)"
  let ?F = "filter (\<lambda>f. user f \<noteq> user_id u) (favorites s)"
  have fk: "list_ex (\<lambda>v. user_id v = k) ?U"
    if "list_ex (\<lambda>v. user_id v = k) (users s)" "k \<noteq> user_id u" for k
    using that by (auto simp: list_ex_iff)
  from c have d: "distinct (map user_id ?U)" "distinct (map email ?U)"
    "distinct (map pk ?F)" "distinct (map (\<lambda>f. (user f, product f)) ?F)"
    by (simp_all add: constraints_def distinct_map_filter)
  from c have p: "list_all (\<lambda>f. list_ex (\<lambda>p. pk p = product f) (products s)) ?F"
    by (simp add: constraints_def list_all_iff)
  from c have "list_all (\<lambda>f. list_ex (\<lambda>u. user_id u = user f) (users s)) (favorites s)"
    by (simp add: constraints_def)
  then have f: "list_all (\<lambda>f. list_ex (\<lambda>u. user_id u = user f) ?U) ?F"
    by (auto simp: list_all_iff intro: fk)
  from c have "list_all (\<lambda>t. list_ex (\<lambda>u. user_id u = token_user t) (users s)) (tokens s)"
    by (simp add: constraints_def)
  then have t: "list_all (\<lambda>t. list_ex (\<lambda>u. user_id u = token_user t) ?U) ?T"
    by (auto simp: list_all_iff intro: fk)
  from c have "distinct (map pk (products s))" "distinct (map api_id (products s))"
    by (simp_all add: constraints_def)
  with d p f t show ?thesis by (simp add: constraints_def user_delete_def)
qed

lemma constraints_delete_user:
  assumes "constraints s"
  shows "constraints (snd (delete_user uid s))"
  using assms by (simp add: delete_user_def constraints_user_delete split: option.splits)

lemma constraints_product_insert:
  assumes c: "constraints s" and ins: "product_insert py now obj s = Inr (p, s')"
  shows "constraints s'"
proof -
  from product_insert_Inr [OF ins] have
    k: "pk p = fresh_pk (map pk (products s))" and a: "api_id p \<notin> api_id ` set (products s)" and
    s': "s' = s\<lparr>products := products s @ [p]\<rparr>"
    by simp_all
  from k have "pk p \<notin> pk ` set (products s)"
    using fresh_pk_fresh [of "map pk (products s)"] by simp
  with c a have d: "distinct (map pk (products s @ [p]))" "distinct (map api_id (products s @ [p]))"
    by (simp_all add: constraints_def)
  from c have "list_all (\<lambda>f. list_ex (\<lambda>p. pk p = product f) (products s)) (favorites s)"
    by (simp add: constraints_def)
  then have fk: "list_all (\<lambda>f. list_ex (\<lambda>q. pk q = product f) (products s @ [p])) (favorites s)"
    by (auto simp: list_all_iff list_ex_iff)
  from c d fk show ?thesis by (simp add: s' constraints_def)
qed

lemma constraints_link_favorite:
  assumes c: "constraints s" and p: "p \<in> set (products s)"
    and u: "user_id auth \<in> user_id ` set (users s)"
    and l: "link_favorite now auth p s = Inr (r, s')"
  shows "constraints s'"
proof (cases "has_favorite s auth p")
  case True
  with l c show ?thesis by (simp add: link_favorite_dup)
next
  case False
  define row where "row = favorite_row (fresh_pk (map pk (favorites s))) now (user_id auth) (pk p)"
  from False l have s': "s' = s\<lparr>favorites := favorites s @ [row]\<rparr>"
    by (simp add: link_favorite_new row_def)
  have r: "pk row = fresh_pk (map pk (favorites s))" "user row = user_id auth" "product row = pk p"
    by (simp_all add: row_def favorite_row_def)
  have "pk row \<notin> pk ` set (favorites s)"
    using fresh_pk_fresh [of "map pk (favorites s)"] by (simp add: r)
  with c have d1: "distinct (map pk (favorites s @ [row]))" by (simp add: constraints_def)
  from False have "(user row, product row) \<notin> (\<lambda>f. (user f, product f)) ` set (favorites s)"
    by (auto simp: has_favorite_def list_ex_iff r)
  with c have d2: "distinct (map (\<lambda>f. (user f, product f)) (favorites s @ [row]))"
    by (simp add: constraints_def)
  from p have "list_ex (\<lambda>q. pk q = product row) (products s)" by (auto simp: list_ex_iff r)
  with c have f1: "list_all (\<lambda>f. list_ex (\<lambda>p. pk p = product f) (products s)) (favorites s @ [row])"
    by (simp add: constraints_def)
  from u have "list_ex (\<lambda>v. user_id v = user row) (users s)" by (auto simp: list_ex_iff r)
  with c have f2: "list_all (\<lambda>f. list_ex (\<lambda>u. user_id u = user f) (users s)) (favorites s @ [row])"
    by (simp add: constraints_def)
  from c d1 d2 f1 f2 show ?thesis by (simp add: s' constraints_def)
qed

lemma constraints_add_favorite:
  assumes c: "constraints s" and u: "user_id auth \<in> user_id ` set (users s)"
    and a: "add_favorite py client now auth p_id s = Inr (r, s')"
  shows "constraints s'"
proof (cases "local_product s p_id")
  case (Some p)
  with a have l: "link_favorite now auth p s = Inr (r, s')" by (simp add: add_favorite_local)
  from Some have "p \<in> set (products s)" by (simp add: local_product_Some)
  from c this u l show ?thesis by (rule constraints_link_favorite)
next
  case None
  show ?thesis
  proof (cases "and_then (client p_id) (\<lambda>data. create_product_from_api_data py now data s)")
    case (Inl e)
    with a None c show ?thesis by (auto simp: add_favorite_def split: if_splits)
  next
    case (Inr x)
    obtain p s1 where x: "x = (p, s1)" by (cases x)
    from Inr x obtain data where cr: "create_product_from_api_data py now data s = Inr (p, s1)"
      by (auto simp: and_then_eq_Inr)
    from create_product_Inr [OF cr] obtain obj where ins: "product_insert py now obj s = Inr (p, s1)"
      by blast
    from constraints_product_insert [OF c ins] have c1: "constraints s1" .
    from product_insert_Inr [OF ins] have s1: "s1 = s\<lparr>products := products s @ [p]\<rparr>" by simp
    from a None Inr x have l: "link_favorite now auth p s1 = Inr (r, s')"
      by (simp add: add_favorite_def)
    have p: "p \<in> set (products s1)" by (simp add: s1)
    from u have u1: "user_id auth \<in> user_id ` set (users s1)" by (simp add: s1)
    from c1 p u1 l show ?thesis by (rule constraints_link_favorite)
  qed
qed


lemma map_replace_key:
  assumes "f r' = f r"
  shows "map f (map (\<lambda>x. if f x = f r then r' else x) xs) = map f xs"
  using assms by (induction xs) simp_all

lemma distinct_email_replace:
  assumes "distinct (map user_id xs)" and "distinct (map email xs)"
    and "\<forall>v \<in> set xs. user_id v \<noteq> uid \<longrightarrow> email v \<noteq> email u'"
  shows "distinct (map email (map (\<lambda>v. if user_id v = uid then u' else v) xs))"
proof -
  define g where "g = (\<lambda>v. if user_id v = uid then u' else v)"
  from assms have "distinct (map email (map g xs))"
  proof (induction xs)
    case Nil
    then show ?case by simp
  next
    case (Cons x xs)
    from Cons.prems have IH: "distinct (map email (map g xs))"
      by (intro Cons.IH) simp_all
    have "email (g x) \<noteq> email (g y)" if "y \<in> set xs" for y
    proof -
      from Cons.prems(1) have "user_id x \<notin> user_id ` set xs" by simp
      with that have ne: "user_id y \<noteq> user_id x" by (metis imageI)
      from Cons.prems(2) have "email x \<notin> email ` set xs" by simp
      with that have nm: "email y \<noteq> email x" by (metis imageI)
      from Cons.prems(3) that have ey: "user_id y \<noteq> uid \<longrightarrow> email y \<noteq> email u'" by simp
      from Cons.prems(3) have ex: "user_id x \<noteq> uid \<longrightarrow> email x \<noteq> email u'" by simp
      from ne nm ey ex show ?thesis by (auto simp: g_def)
    qed
    then have "email (g x) \<notin> (\<lambda>y. email (g y)) ` set xs" by blast
    with IH show ?case by (simp add: comp_def image_image)
  qed
  then show ?thesis by (simp add: g_def)
qed

lemma constraints_user_save:
  assumes c: "constraints s" and sv: "user_save obj s = Inr (u', s')"
  shows "constraints s'"
proof -
  let ?u = "obj_row obj"
  from user_save_Inr [OF sv] obtain n e pw where
    e: "obj_email obj = Some e" and
    u': "u' = ?u\<lparr>name := n, email := e, password := pw\<rparr>" and
    s': "s' = s\<lparr>users := map (\<lambda>v. if user_id v = user_id ?u then u' else v) (users s)\<rparr>"
    by blast
  have id: "user_id u' = user_id ?u" and em: "email u' = e" by (simp_all add: u')
  from sv e have "\<not> list_ex (\<lambda>v. user_id v \<noteq> user_id ?u \<and> email v = e) (users s)"
    by (auto simp: user_save_def split: option.splits if_splits)
  then have other: "\<forall>v \<in> set (users s). user_id v \<noteq> user_id ?u \<longrightarrow> email v \<noteq> email u'"
    by (auto simp: list_ex_iff em)
  have ids: "map user_id (users s') = map user_id (users s)"
    unfolding s' using map_replace_key [of user_id u' ?u "users s"] id by simp
  from c have d: "distinct (map user_id (users s))" "distinct (map email (users s))"
    by (simp_all add: constraints_def)
  have d1: "distinct (map user_id (users s'))" by (simp add: ids d)
  have d2: "distinct (map email (users s'))"
    unfolding s' using distinct_email_replace [OF d other] by simp
  have ex: "list_ex (\<lambda>u. user_id u = k) (users s') \<longleftrightarrow> list_ex (\<lambda>u. user_id u = k) (users s)" for k
  proof -
    have "list_ex (\<lambda>u. user_id u = k) xs \<longleftrightarrow> k \<in> set (map user_id xs)" for xs :: "User list"
      by (auto simp: list_ex_iff)
    then show ?thesis by (simp only: ids)
  qed
  have rest: "tokens s' = tokens s" "products s' = products s" "favorites s' = favorites s"
    by (simp_all add: s')
  from c show ?thesis
    unfolding constraints_def rest ex using d1 d2 by simp
qed

lemma update_user_cases:
  assumes "update_user make_password uid payload s = Inr (resp, s')"
  shows "s' = s \<or> (\<exists>obj u'. user_save obj s = Inr (u', s'))"
  using assms unfolding update_user_def Let_def
  by (auto split: option.splits sum.splits prod.splits)

lemma constraints_update_user:
  assumes "constraints s" and "update_user make_password uid payload s = Inr (resp, s')"
  shows "constraints s'"
  using update_user_cases [OF assms(2)] assms(1) by (auto intro: constraints_user_save)

lemma find_Some_mem: "find P xs = Some x \<Longrightarrow> x \<in> set xs"
  by (auto simp: find_Some_iff)

lemma map_replace_row:
  assumes "distinct (map pk xs)" and "row \<in> set xs"
    and "(f::Product \<Rightarrow> 'a) row' = f row"
  shows "map f (map (\<lambda>p. if pk p = pk row then row' else p) xs) = map f xs"
proof -
  have "f (if pk p = pk row then row' else p) = f p" if "p \<in> set xs" for p
  proof (cases "pk p = pk row")
    case True
    with assms(1,2) that have "p = row" by (auto simp: distinct_map dest: inj_onD)
    with assms(3) show ?thesis by simp
  next
    case False
    then show ?thesis by simp
  qed
  then show ?thesis by (simp add: comp_def cong: map_cong)
qed

lemma constraints_product_update:
  assumes c: "constraints s" and row: "row \<in> set (products s)"
    and up: "product_update py now row obj s = Inr s'"
  shows "constraints s'"
proof -
  from product_update_Inr [OF up] obtain c' t d cat img where
    s'0: "s' = s\<lparr>products := map (\<lambda>p. if pk p = pk row
                  then row\<lparr>date_changed := now, title := t, price := obj_price obj,
                           description := d, category := cat, image_url := img,
                           rating_rate := obj_rating_rate obj, rating_count := c'\<rparr>
                  else p) (products s)\<rparr>"
    by blast
  define row' where "row' = row\<lparr>date_changed := now, title := t, price := obj_price obj,
                           description := d, category := cat, image_url := img,
                           rating_rate := obj_rating_rate obj, rating_count := c'\<rparr>"
  have k: "pk row' = pk row" and a: "api_id row' = api_id row" by (simp_all add: row'_def)
  have s': "s' = s\<lparr>products := map (\<lambda>p. if pk p = pk row then row' else p) (products s)\<rparr>"
    by (simp add: s'0 row'_def)
  from c have d: "distinct (map pk (products s))" by (simp add: constraints_def)
  have pks: "map pk (products s') = map pk (products s)"
    unfolding s' using map_replace_row [OF d row k] by simp
  have apis: "map api_id (products s') = map api_id (products s)"
    unfolding s' using map_replace_row [OF d row a] by simp
  have ex: "list_ex (\<lambda>p. pk p = j) (products s') \<longleftrightarrow> list_ex (\<lambda>p. pk p = j) (products s)" for j
  proof -
    have "list_ex (\<lambda>p. pk p = j) xs \<longleftrightarrow> j \<in> set (map pk xs)" for xs :: "Product list"
      by (auto simp: list_ex_iff)
    then show ?thesis by (simp only: pks)
  qed
  have rest: "users s' = users s" "tokens s' = tokens s" "favorites s' = favorites s"
    by (simp_all add: s')
  from c show ?thesis
    unfolding constraints_def rest ex pks apis by simp
qed

lemma constraints_sync_item:
  assumes c: "constraints s" and it: "sync_item py now d s = Inr (st, s')"
  shows "constraints s'"
proof -
  from it consider "s' = s"
    | row obj k where "find (\<lambda>p. api_id p = k) (products s) = Some row"
        "product_update py now row obj s = Inr s'"
    unfolding sync_item_def
    by (auto simp: and_then_eq_Inr split: option.splits if_splits)
  then show ?thesis
  proof cases
    case 1
    with c show ?thesis by simp
  next
    case 2
    from 2(1) have "row \<in> set (products s)" by (rule find_Some_mem)
    from c this 2(2) show ?thesis by (rule constraints_product_update)
  qed
qed

lemma constraints_sync_loop:
  "constraints s \<Longrightarrow> sync_loop py now items s u k = (out, s') \<Longrightarrow> constraints s'"
proof (induction items arbitrary: s u k)
  case Nil
  then show ?case by simp
next
  case (Cons d ds)
  show ?case
  proof (cases "sync_item py now d s")
    case (Inl e)
    with Cons.prems show ?thesis by simp
  next
    case (Inr r)
    obtain st s1 where r: "r = (st, s1)" by (cases r)
    from Cons.prems(1) Inr r have c1: "constraints s1" by (auto dest: constraints_sync_item)
    from Cons.prems(2) Inr r obtain u' k' where "sync_loop py now ds s1 u' k' = (out, s')"
      by (cases st) auto
    from c1 this show ?thesis by (rule Cons.IH)
  qed
qed

lemma constraints_handle:
  assumes c: "constraints s" and h: "handle py fetched now s = (out, s')"
  shows "constraints s'"
proof -
  from h consider "s' = s" | items where "sync_loop py now items s 0 0 = (out, s')"
    unfolding handle_def by (auto split: sum.splits if_splits)
  then show ?thesis
  proof cases
    case 1
    with c show ?thesis by simp
  next
    case 2
    from c 2 show ?thesis by (rule constraints_sync_loop)
  qed
qed

end
